theory Spec2Isabelle
  imports Main
begin

unbundle bit_operations_syntax

section \<open>Values of the host language\<close>

text \<open>
  The wrappers of \<^verbatim>\<open>src/classes/scripts.ts\<close> marshal JavaScript values into the argument
  array of a server-side script and decode what the script replies. Values are dynamically
  typed, so they are one datatype. Numbers are modelled as exact integers: the numbers the
  wrappers compute with are millisecond timestamps, counts and job ids, and the runtime's
  double arithmetic is exact on integers below \<open>2^53\<close>.
\<close>

datatype jsval =
    Undefined
  | Null
  | Bool bool
  | Num int
  | Str string
  | Arr "jsval list"
  | Obj "(string \<times> jsval) list"

text \<open>Truthiness, as \<^verbatim>\<open>if (v)\<close>, \<^verbatim>\<open>v ? a : b\<close>, \<^verbatim>\<open>v || w\<close> and \<^verbatim>\<open>v && w\<close> test it.\<close>

fun truthy :: "jsval \<Rightarrow> bool" where
  "truthy Undefined = False"
| "truthy Null = False"
| "truthy (Bool b) = b"
| "truthy (Num n) = (n \<noteq> 0)"
| "truthy (Str s) = (s \<noteq> [])"
| "truthy (Arr xs) = True"
| "truthy (Obj ps) = True"

text \<open>Values that are thrown, or returned in place of a result.\<close>

datatype errval =
    Error string       \<comment> \<open>\<^verbatim>\<open>new Error(message)\<close>\<close>
  | TypeError          \<comment> \<open>raised by the runtime, e.g. on reading a property of \<^verbatim>\<open>undefined\<close>\<close>
  | UndefinedValue     \<comment> \<open>the value \<^verbatim>\<open>undefined\<close> where an \<^verbatim>\<open>Error\<close> is expected\<close>

subsection \<open>Decimal digits\<close>

text \<open>The decimal digits of a number that is not negative.\<close>

function showDigits :: "int \<Rightarrow> string" where
  "showDigits n =
     (if n < 10 then [''0123456789'' ! nat n]
      else showDigits (n div 10) @ [''0123456789'' ! nat (n mod 10)])"
  by pat_completeness auto
termination
  by (relation "measure nat") auto

declare showDigits.simps [simp del]

subsection \<open>Doubles\<close>

text \<open>
  A number of the host language is an IEEE double. The numbers of this development are
  integers: an integer stands for the double nearest to it (a tie goes to the even
  mantissa), which is what a numeric literal of the host language denotes, and an
  arithmetic operation rounds its exact result in the same way. \<open>flInt\<close> is that rounding,
  with no bound on the exponent; a result of magnitude \<open>2 ^ 1024\<close> or more is an infinity
  (\<open>overflows\<close>).
\<close>

function bitLength :: "int \<Rightarrow> int" where
  "bitLength n = (if n \<le> 0 then 0 else 1 + bitLength (n div 2))"
  by pat_completeness auto
termination
  by (relation "measure nat") auto

declare bitLength.simps [simp del]

text \<open>The integer nearest to \<open>a / b\<close>, for \<open>0 \<le> a\<close> and \<open>0 < b\<close>; a tie goes to the even one.\<close>

definition roundHalfEven :: "int \<Rightarrow> int \<Rightarrow> int" where
  "roundHalfEven a b =
     (let q = a div b; r = a mod b in
      if 2 * r < b then q
      else if b < 2 * r then q + 1
      else if even q then q else q + 1)"

definition flInt :: "int \<Rightarrow> int" where
  "flInt n =
     (if \<bar>n\<bar> < 2 ^ 53 then n
      else let e = nat (bitLength \<bar>n\<bar> - 53)
           in sgn n * (roundHalfEven \<bar>n\<bar> (2 ^ e) * 2 ^ e))"

definition overflows :: "int \<Rightarrow> bool" where
  "overflows n = (2 ^ 1024 \<le> \<bar>flInt n\<bar>)"

subsection \<open>Numbers to strings\<close>

text \<open>
  The string of a number has as few significant digits as still read back as the same
  double: for a double \<open>v\<close> of \<open>2 ^ 53\<close> or more, the multiple \<open>c\<close> of the largest power of ten
  that rounds to \<open>v\<close> (the nearest to \<open>v\<close> of them, the even one at a tie), searched from the
  number of digits of \<open>v\<close> downwards. Below \<open>2 ^ 53\<close> every integer is a double and is written
  with all its digits. Up to 21 digits are written out, more in exponent notation.
\<close>

definition pickDecimal :: "int \<Rightarrow> int \<Rightarrow> int option" where
  "pickDecimal v p =
     (let c1 = (v div p) * p; c2 = c1 + p;
          ok1 = (0 < c1 \<and> flInt c1 = v); ok2 = (flInt c2 = v)
      in if ok1 \<and> ok2 then
           Some (if v - c1 < c2 - v then c1
                 else if c2 - v < v - c1 then c2
                 else if even (c1 div p) then c1 else c2)
         else if ok1 then Some c1
         else if ok2 then Some c2
         else None)"

function shortestDecimal :: "int \<Rightarrow> int \<Rightarrow> int \<times> int" where
  "shortestDecimal v j =
     (if j \<le> 0 then (v, 0)
      else case pickDecimal v (10 ^ nat j) of
             Some c \<Rightarrow> (c, j)
           | None \<Rightarrow> shortestDecimal v (j - 1))"
  by pat_completeness auto
termination
  by (relation "measure (\<lambda>(v, j). nat j)") auto

declare shortestDecimal.simps [simp del]

definition doubleDigits :: "int \<Rightarrow> string" where
  "doubleDigits v =
     (if v < 2 ^ 53 then showDigits v
      else let cj = shortestDecimal v (int (length (showDigits v)));
               cs = showDigits (fst cj);
               n = length cs
           in if n \<le> 21 then cs
              else let sd = take (n - nat (snd cj)) cs
                   in (if length sd = 1 then sd else hd sd # CHR ''.'' # tl sd)
                      @ ''e+'' @ showDigits (int n - 1))"

definition numberToString :: "int \<Rightarrow> string" where
  "numberToString n =
     (let v = flInt \<bar>n\<bar> in
      if 2 ^ 1024 \<le> v then (if n < 0 then ''-Infinity'' else ''Infinity'')
      else if n < 0 then CHR ''-'' # doubleDigits v
      else doubleDigits v)"

subsection \<open>Strings to numbers\<close>

text \<open>
  The unary plus of \<^verbatim>\<open>+jobId\<close> reads a string as a numeric literal: surrounding white space
  (of the ASCII range; strings are byte strings here) is dropped, the empty string is 0, a literal may be hexadecimal, octal or binary (with its
  prefix and no sign) or decimal with sign, fraction and exponent, and everything else is
  \<^verbatim>\<open>NaN\<close>. The value of the literal is rounded to the nearest double: \<open>Finite m e\<close> is the
  double \<open>m * 2 ^ e\<close>.
\<close>

datatype jsnum = NaN | Infinite | Finite int int

text \<open>
  \<open>floorLog2 a b\<close> is the binary exponent of \<open>a / b\<close> for positive \<open>a\<close> and \<open>b\<close>: the \<open>k\<close> with
  \<open>2 ^ k \<le> a / b < 2 ^ (k + 1)\<close>. \<open>roundRatio a b\<close> is the double nearest to \<open>a / b\<close>: a mantissa
  of 53 bits, fewer below the least normal exponent (the unit is never below \<open>2 ^ - 1074\<close>),
  a tie to the even mantissa, and an infinity from \<open>2 ^ 1024\<close> on. \<open>roundDecimal m e\<close> is the
  double nearest to \<open>m * 10 ^ e\<close>.
\<close>

definition floorLog2 :: "int \<Rightarrow> int \<Rightarrow> int" where
  "floorLog2 a b =
     (let d = bitLength a - bitLength b in
      if (if 0 \<le> d then b * 2 ^ nat d \<le> a else b \<le> a * 2 ^ nat (- d)) then d else d - 1)"

definition roundRatio :: "int \<Rightarrow> int \<Rightarrow> jsnum" where
  "roundRatio a b =
     (if a = 0 then Finite 0 0
      else let e = max (floorLog2 a b - 52) (- 1074);
               m = (if 0 \<le> e then roundHalfEven a (b * 2 ^ nat e)
                    else roundHalfEven (a * 2 ^ nat (- e)) b)
           in if 0 \<le> e \<and> 2 ^ 1024 \<le> m * 2 ^ nat e then Infinite else Finite m e)"

definition roundDecimal :: "int \<Rightarrow> int \<Rightarrow> jsnum" where
  "roundDecimal m e =
     (case (if 0 \<le> e then roundRatio (\<bar>m\<bar> * 10 ^ nat e) 1
            else roundRatio \<bar>m\<bar> (10 ^ nat (- e))) of
        Finite m2 e2 \<Rightarrow> Finite (sgn m * m2) e2
      | x \<Rightarrow> x)"

definition isWhiteSpace :: "char \<Rightarrow> bool" where
  "isWhiteSpace c = (c \<in> set [CHR 0x09, CHR 0x0A, CHR 0x0B, CHR 0x0C, CHR 0x0D, CHR 0x20])"

definition trim :: "string \<Rightarrow> string" where
  "trim s = rev (dropWhile isWhiteSpace (rev (dropWhile isWhiteSpace s)))"

definition digitOf :: "char \<Rightarrow> int option" where
  "digitOf c =
     (let n = of_char c :: int in
      if 48 \<le> n \<and> n \<le> 57 then Some (n - 48)
      else if 97 \<le> n \<and> n \<le> 122 then Some (n - 87)
      else if 65 \<le> n \<and> n \<le> 90 then Some (n - 55)
      else None)"

definition isDigitIn :: "int \<Rightarrow> char \<Rightarrow> bool" where
  "isDigitIn b c = (case digitOf c of None \<Rightarrow> False | Some d \<Rightarrow> d < b)"

definition digitsValue :: "int \<Rightarrow> string \<Rightarrow> int" where
  "digitsValue b s =
     foldl (\<lambda>acc c. acc * b + (case digitOf c of None \<Rightarrow> 0 | Some d \<Rightarrow> d)) 0 s"

definition allDigits :: "int \<Rightarrow> string \<Rightarrow> bool" where
  "allDigits b ds = (ds \<noteq> [] \<and> filter (\<lambda>c. \<not> isDigitIn b c) ds = [])"

definition nonDecimalLiteral :: "int \<Rightarrow> string \<Rightarrow> jsnum" where
  "nonDecimalLiteral b ds = (if allDigits b ds then roundDecimal (digitsValue b ds) 0 else NaN)"

definition splitSign :: "string \<Rightarrow> bool \<times> string" where
  "splitSign s =
     (case s of
        [] \<Rightarrow> (False, [])
      | c # r \<Rightarrow>
          if c = CHR ''-'' then (True, r)
          else if c = CHR ''+'' then (False, r)
          else (False, s))"

definition exponentPart :: "string \<Rightarrow> int option" where
  "exponentPart s =
     (case s of
        [] \<Rightarrow> Some 0
      | c # r \<Rightarrow>
          if c = CHR ''e'' \<or> c = CHR ''E'' then
            (let sd = splitSign r in
             if allDigits 10 (snd sd)
             then Some ((if fst sd then - 1 else 1) * digitsValue 10 (snd sd))
             else None)
          else None)"

definition strDecimalLiteral :: "string \<Rightarrow> jsnum" where
  "strDecimalLiteral s =
     (let sd = splitSign s; u = snd sd in
      if u = ''Infinity'' then Infinite
      else
        let ip = takeWhile (isDigitIn 10) u;
            r1 = dropWhile (isDigitIn 10) u;
            hasDot = (r1 \<noteq> [] \<and> hd r1 = CHR ''.'');
            fp = (if hasDot then takeWhile (isDigitIn 10) (tl r1) else []);
            r2 = (if hasDot then dropWhile (isDigitIn 10) (tl r1) else r1)
        in if ip = [] \<and> fp = [] then NaN
           else (case exponentPart r2 of
                   None \<Rightarrow> NaN
                 | Some e \<Rightarrow>
                     roundDecimal ((if fst sd then - 1 else 1) * digitsValue 10 (ip @ fp))
                                  (e - int (length fp))))"

definition toNumber :: "string \<Rightarrow> jsnum" where
  "toNumber s =
     (let t = trim s; p = take 2 t in
      if t = [] then Finite 0 0
      else if p = ''0x'' \<or> p = ''0X'' then nonDecimalLiteral 16 (drop 2 t)
      else if p = ''0o'' \<or> p = ''0O'' then nonDecimalLiteral 8 (drop 2 t)
      else if p = ''0b'' \<or> p = ''0B'' then nonDecimalLiteral 2 (drop 2 t)
      else strDecimalLiteral t)"

text \<open>
  The operands of \<^verbatim>\<open>&\<close> are converted to 32-bit signed integers: \<^verbatim>\<open>NaN\<close> and the
  infinities become 0, a finite value is truncated towards zero and wrapped.
\<close>

definition toInt32 :: "jsnum \<Rightarrow> int" where
  "toInt32 x =
     (case x of
        NaN \<Rightarrow> 0
      | Infinite \<Rightarrow> 0
      | Finite m e \<Rightarrow>
          signed_take_bit 31
            (if 0 \<le> e then m * 2 ^ nat e else sgn m * (\<bar>m\<bar> div 2 ^ nat (- e))))"

subsection \<open>JSON text\<close>

definition jsonEscape :: "char \<Rightarrow> string" where
  "jsonEscape c =
     (let n = of_char c :: int in
      if c = CHR 0x22 then [CHR 0x5C, CHR 0x22]
      else if c = CHR 0x5C then [CHR 0x5C, CHR 0x5C]
      else if c = CHR 0x08 then [CHR 0x5C, CHR ''b'']
      else if c = CHR 0x09 then [CHR 0x5C, CHR ''t'']
      else if c = CHR 0x0A then [CHR 0x5C, CHR ''n'']
      else if c = CHR 0x0C then [CHR 0x5C, CHR ''f'']
      else if c = CHR 0x0D then [CHR 0x5C, CHR ''r'']
      else if n < 32 then
        [CHR 0x5C, CHR ''u'', CHR ''0'', CHR ''0'',
         ''0123456789abcdef'' ! nat (n div 16), ''0123456789abcdef'' ! nat (n mod 16)]
      else [c])"

definition jsonQuote :: "string \<Rightarrow> string" where
  "jsonQuote s = CHR 0x22 # concat (map jsonEscape s) @ [CHR 0x22]"

fun joinWith :: "string \<Rightarrow> string list \<Rightarrow> string" where
  "joinWith sep [] = []"
| "joinWith sep [x] = x"
| "joinWith sep (x # y # ys) = x @ sep @ joinWith sep (y # ys)"

text \<open>
  \<^verbatim>\<open>JSON.stringify\<close>: \<^verbatim>\<open>undefined\<close> has no JSON text (\<open>None\<close>); inside an array it is
  written \<^verbatim>\<open>null\<close>, and a property holding it is left out. An infinite number is written
  \<^verbatim>\<open>null\<close>.
\<close>

fun JSON_stringify :: "jsval \<Rightarrow> string option"
  and JSON_elements :: "jsval list \<Rightarrow> string list"
  and JSON_members :: "(string \<times> jsval) list \<Rightarrow> string list" where
  "JSON_stringify Undefined = None"
| "JSON_stringify Null = Some ''null''"
| "JSON_stringify (Bool b) = Some (if b then ''true'' else ''false'')"
| "JSON_stringify (Num n) = Some (if overflows n then ''null'' else numberToString n)"
| "JSON_stringify (Str s) = Some (jsonQuote s)"
| "JSON_stringify (Arr xs) = Some (''['' @ joinWith '','' (JSON_elements xs) @ '']'')"
| "JSON_stringify (Obj ps) = Some (''{'' @ joinWith '','' (JSON_members ps) @ ''}'')"
| "JSON_elements [] = []"
| "JSON_elements (x # xs) =
     (case JSON_stringify x of None \<Rightarrow> ''null'' | Some t \<Rightarrow> t) # JSON_elements xs"
| "JSON_members [] = []"
| "JSON_members ((k, v) # ps) =
     (case JSON_stringify v of
        None \<Rightarrow> JSON_members ps
      | Some t \<Rightarrow> (jsonQuote k @ '':'' @ t) # JSON_members ps)"

text \<open>A stringified value as an element of an argument array.\<close>

definition jsonArg :: "jsval \<Rightarrow> jsval" where
  "jsonArg v = (case JSON_stringify v of None \<Rightarrow> Undefined | Some t \<Rightarrow> Str t)"

section \<open>The queue and the script client\<close>

text \<open>
  \<^verbatim>\<open>MinimalQueue\<close> picks the members of the queue that the wrappers use. \<open>toKey\<close> and the
  table \<open>keys\<close> name the keys of the queue; \<open>client\<close> runs a named script on an argument
  array against the store and gives its reply; \<open>emit\<close> notifies the local listeners.
  The state \<open>'s\<close> is everything outside the wrapper: the store and the listeners.
\<close>

text \<open>
  A script replies nothing (\<^verbatim>\<open>null\<close>), an integer, or the two-element array of a job's flat
  field list and its id.
\<close>

datatype reply = NilReply | IntReply int | JobReply "string list" string

record RateLimiterOptions =
  limiterMax :: int
  limiterDuration :: int
  groupKey :: "string option"

record WorkerOptions =
  lockDuration :: "int option"
  limiter :: "RateLimiterOptions option"

record 's MinimalQueue =
  toKey :: "string \<Rightarrow> string"
  keys :: "string \<Rightarrow> string option"
  opts :: WorkerOptions
  closing :: bool
  client :: "string \<Rightarrow> jsval list \<Rightarrow> 's \<Rightarrow> reply \<times> 's"
  emit :: "string \<Rightarrow> 's \<Rightarrow> 's"

record JobRef =
  ref_id :: string
  ref_queue :: string

record JobsOptions =
  delay :: "int option"
  priority :: "int option"
  lifo :: "bool option"
  jobId_opt :: "string option"
  parent :: "JobRef option"

record Job =
  job_id :: string
  job_opts :: "JobsOptions option"

record JobJson =
  json_name :: string
  json_data :: jsval
  json_opts :: jsval
  json_timestamp :: int

record ParentOpts =
  waitChildrenKey :: jsval
  parentDependenciesKey :: jsval
  parentKey :: jsval

record MoveToChildrenOpts =
  mtc_timestamp :: "int option"
  child :: "JobRef option"

text \<open>\<^verbatim>\<open>queue.keys[name]\<close>: \<^verbatim>\<open>undefined\<close> for a name the table does not hold.\<close>

definition keyOf :: "('s, 'z) MinimalQueue_scheme \<Rightarrow> string \<Rightarrow> jsval" where
  "keyOf queue n = (case keys queue n of None \<Rightarrow> Undefined | Some k \<Rightarrow> Str k)"

definition optNum :: "int option \<Rightarrow> jsval" where
  "optNum v = (case v of None \<Rightarrow> Undefined | Some n \<Rightarrow> Num n)"

definition optStr :: "string option \<Rightarrow> jsval" where
  "optStr v = (case v of None \<Rightarrow> Undefined | Some s \<Rightarrow> Str s)"

text \<open>
  \<^verbatim>\<open>result < 0\<close> on a reply: \<^verbatim>\<open>null\<close> compares as 0, and a two-element array compares as
  \<^verbatim>\<open>NaN\<close> (its string form holds a comma), so only a negative integer is below 0.
\<close>

fun replyNegative :: "reply \<Rightarrow> bool" where
  "replyNegative NilReply = False"
| "replyNegative (IntReply n) = (n < 0)"
| "replyNegative (JobReply flds jid) = False"

fun replyTruthy :: "reply \<Rightarrow> bool" where
  "replyTruthy NilReply = False"
| "replyTruthy (IntReply n) = (n \<noteq> 0)"
| "replyTruthy (JobReply flds jid) = True"

section \<open>Error codes\<close>

definition finishedErrors :: "reply \<Rightarrow> string \<Rightarrow> string \<Rightarrow> string \<Rightarrow> errval" where
  "finishedErrors code jobId command state =
     (if code = IntReply (- 1) then
        Error (''Missing key for job '' @ jobId @ ''. '' @ command)
      else if code = IntReply (- 2) then
        Error (''Missing lock for job '' @ jobId @ ''. '' @ command)
      else if code = IntReply (- 3) then
        Error (''Job '' @ jobId @ '' is not in the '' @ state @ '' state. '' @ command)
      else if code = IntReply (- 4) then
        Error (''Job '' @ jobId @ '' has pending dependencies. '' @ command)
      else UndefinedValue)"

section \<open>Delayed jobs\<close>

text \<open>
  The timestamp is a time in milliseconds, an integer; as a number it is the double nearest
  to that integer. The product with \<^verbatim>\<open>0x1000\<close> is a double again (a scaling by a power
  of two), and the sum with the low twelve bits of the numeric id is rounded (\<open>flInt\<close>): from
  \<open>2 ^ 53\<close> on not every integer is a double.
\<close>

definition changeDelayArgs ::
  "('s, 'z) MinimalQueue_scheme \<Rightarrow> string \<Rightarrow> int \<Rightarrow> jsval list" where
  "changeDelayArgs queue jobId timestamp =
     (let timestamp1 = max 0 (flInt timestamp);
          timestamp2 =
            (if timestamp1 > 0
             then flInt (timestamp1 * 0x1000 + (toInt32 (toNumber jobId) AND 0xfff))
             else timestamp1);
          keys1 = map (\<lambda>name. Str (toKey queue name)) [''delayed'', jobId];
          keys2 = keys1 @ [keyOf queue ''events'', keyOf queue ''delay'']
      in keys2 @ [jsonArg (Num timestamp2), Str jobId])"

definition changeDelay ::
  "('s, 'z) MinimalQueue_scheme \<Rightarrow> string \<Rightarrow> int \<Rightarrow> 's \<Rightarrow> (errval + unit) \<times> 's" where
  "changeDelay queue jobId delay' s =
     (let args = changeDelayArgs queue jobId delay';
          r = client queue ''changeDelay'' args s
      in if replyNegative (fst r)
         then (Inl (finishedErrors (fst r) jobId ''changeDelay'' ''delayed''), snd r)
         else (Inr (), snd r))"

definition moveToDelayedArgs ::
  "('s, 'z) MinimalQueue_scheme \<Rightarrow> string \<Rightarrow> int option \<Rightarrow> jsval list" where
  "moveToDelayedArgs queue jobId timestamp =
     (let timestamp1 = max 0 (case timestamp of None \<Rightarrow> 0 | Some t \<Rightarrow> flInt t);
          timestamp2 =
            (if timestamp1 > 0
             then flInt (timestamp1 * 0x1000 + (toInt32 (toNumber jobId) AND 0xfff))
             else timestamp1);
          keys1 = map (\<lambda>name. Str (toKey queue name)) [''active'', ''delayed'', jobId];
          keys2 = keys1 @ [keyOf queue ''events'', keyOf queue ''delay'']
      in keys2 @ [jsonArg (Num timestamp2), Str jobId])"

definition moveToDelayed ::
  "('s, 'z) MinimalQueue_scheme \<Rightarrow> string \<Rightarrow> int option \<Rightarrow> 's \<Rightarrow> (errval + unit) \<times> 's" where
  "moveToDelayed queue jobId timestamp s =
     (let args = moveToDelayedArgs queue jobId timestamp;
          r = client queue ''moveToDelayed'' args s
      in if replyNegative (fst r)
         then (Inl (finishedErrors (fst r) jobId ''moveToDelayed'' ''active''), snd r)
         else (Inr (), snd r))"

section \<open>Waiting for children\<close>

definition getParentKey :: "JobRef option \<Rightarrow> string option" where
  "getParentKey opts' =
     (case opts' of None \<Rightarrow> None | Some r \<Rightarrow> Some (ref_queue r @ '':'' @ ref_id r))"

text \<open>
  \<^verbatim>\<open>opts\<close> is declared optional and read without a guard: without it the read of
  \<^verbatim>\<open>opts.timestamp\<close> raises.
\<close>

definition moveToWaitingChildrenArgs ::
  "('s, 'z) MinimalQueue_scheme \<Rightarrow> string \<Rightarrow> string \<Rightarrow> MoveToChildrenOpts option
     \<Rightarrow> errval + jsval list" where
  "moveToWaitingChildrenArgs queue jobId token opts' =
     (case opts' of
        None \<Rightarrow> Inl TypeError
      | Some mopts \<Rightarrow>
          (let timestamp1 =
                 max 0 (case mtc_timestamp mopts of None \<Rightarrow> 0 | Some t \<Rightarrow> flInt t);
               childKey = getParentKey (child mopts);
               timestamp2 =
                 (if timestamp1 > 0
                  then flInt (timestamp1 * 0x1000 + (toInt32 (toNumber jobId) AND 0xfff))
                  else timestamp1);
               keys1 = map (\<lambda>name. Str (toKey queue name))
                         [jobId @ '':lock'', ''active'', ''waiting-children'', jobId]
           in Inr (keys1 @
                   [Str token,
                    Str (case childKey of None \<Rightarrow> [] | Some k \<Rightarrow> k),
                    jsonArg (Num timestamp2),
                    Str jobId])))"

datatype waitingChildrenResult = Boolean bool | ErrorValue errval

text \<open>
  The script runs in a one-command transaction; the wrapper reads the result slot of its
  reply and ignores the error slot. The error value is returned, not thrown. The options
  default to the empty object (\<open>givenOrEmpty\<close>).
\<close>

definition givenOrEmpty :: "MoveToChildrenOpts option \<Rightarrow> MoveToChildrenOpts" where
  "givenOrEmpty opts' =
     (case opts' of None \<Rightarrow> \<lparr>mtc_timestamp = None, child = None\<rparr> | Some given \<Rightarrow> given)"

definition moveToWaitingChildren ::
  "('s, 'z) MinimalQueue_scheme \<Rightarrow> string \<Rightarrow> string \<Rightarrow> MoveToChildrenOpts option \<Rightarrow> 's
     \<Rightarrow> (errval + waitingChildrenResult) \<times> 's" where
  "moveToWaitingChildren queue jobId token opts' s =
     (let mopts = givenOrEmpty opts'
      in case moveToWaitingChildrenArgs queue jobId token (Some mopts) of
           Inl e \<Rightarrow> (Inl e, s)
         | Inr args \<Rightarrow>
             (let r = client queue ''moveToWaitingChildren'' args s
              in (Inr (if fst r = IntReply 0 then Boolean True
                       else if fst r = IntReply 1 then Boolean False
                       else ErrorValue
                              (finishedErrors (fst r) jobId ''moveToWaitingChildren'' ''active'')),
                  snd r)))"

section \<open>Decoding a job reply\<close>

text \<open>
  A raw job is an object from field names to values. \<^verbatim>\<open>obj[k] = v\<close> creates or overwrites the
  property \<open>k\<close>, except for the inherited accessor \<^verbatim>\<open>__proto__\<close>, whose setter ignores a
  string and \<^verbatim>\<open>undefined\<close>.
\<close>

type_synonym JobJsonRaw = "string \<Rightarrow> jsval option"

definition setProp :: "JobJsonRaw \<Rightarrow> string \<Rightarrow> jsval \<Rightarrow> JobJsonRaw" where
  "setProp obj k v = (if k = ''__proto__'' then obj else obj(k \<mapsto> v))"

text \<open>
  The loop of \<^verbatim>\<open>array2obj\<close> steps through the array two elements at a time; an array of odd
  length ends with a name whose value, read past the end, is \<^verbatim>\<open>undefined\<close>.
\<close>

fun array2obj_from :: "JobJsonRaw \<Rightarrow> string list \<Rightarrow> JobJsonRaw" where
  "array2obj_from obj [] = obj"
| "array2obj_from obj [k] = setProp obj k Undefined"
| "array2obj_from obj (k # v # rest) = array2obj_from (setProp obj k (Str v)) rest"

definition array2obj :: "string list \<Rightarrow> JobJsonRaw" where
  "array2obj arr = array2obj_from Map.empty arr"

datatype jobTuple = NoJob | JobTuple JobJsonRaw string

text \<open>
  \<^verbatim>\<open>raw2jobData\<close> is declared on arrays and called on whatever the script replied. On a
  non-zero number \<^verbatim>\<open>raw[0]\<close> is \<^verbatim>\<open>undefined\<close>, and reading its \<^verbatim>\<open>length\<close> raises.
\<close>

definition raw2jobData :: "reply \<Rightarrow> errval + jobTuple" where
  "raw2jobData raw =
     (case raw of
        NilReply \<Rightarrow> Inr NoJob
      | IntReply n \<Rightarrow> if n = 0 then Inr NoJob else Inl TypeError
      | JobReply jobData jid \<Rightarrow>
          if length jobData \<noteq> 0 then Inr (JobTuple (array2obj jobData) jid) else Inr NoJob)"

section \<open>Finishing a job\<close>

text \<open>\<^verbatim>\<open>Date.now()\<close> is the parameter \<open>now\<close>.\<close>

definition moveToFinishedArgs ::
  "('s, 'z) MinimalQueue_scheme \<Rightarrow> Job \<Rightarrow> jsval \<Rightarrow> string \<Rightarrow> jsval \<Rightarrow> string \<Rightarrow> string
     \<Rightarrow> bool \<Rightarrow> int \<Rightarrow> jsval list" where
  "moveToFinishedArgs queue job val propVal shouldRemove target token fetchNext now =
     (let wopts = opts queue;
          keys1 =
            [keyOf queue ''active'',
             keyOf queue target,
             Str (toKey queue (job_id job)),
             keyOf queue ''wait'',
             keyOf queue ''priority'',
             keyOf queue ''events'',
             keyOf queue ''meta'',
             keyOf queue ''stalled''];
          remove' =
            (case shouldRemove of
               Bool b \<Rightarrow> Str (if b then ''1'' else ''0'')
             | Num n \<Rightarrow> Str (numberToString (n + 1))
             | _ \<Rightarrow> Undefined);
          parent' = (case job_opts job of None \<Rightarrow> None | Some jo \<Rightarrow> parent jo);
          args =
            [Str (job_id job),
             Num now,
             Str propVal,
             (if val = Undefined then Str ''null'' else val),
             Str target,
             remove',
             jsonArg (Obj [(''jobId'', Str (job_id job)), (''val'', val)]),
             Num (if \<not> fetchNext \<or> closing queue \<or> limiter wopts \<noteq> None then 0 else 1),
             keyOf queue [],
             Str token,
             optNum (lockDuration wopts),
             (case parent' of None \<Rightarrow> Undefined | Some p \<Rightarrow> Str (ref_id p)),
             (case parent' of None \<Rightarrow> Undefined | Some p \<Rightarrow> Str (ref_queue p))]
      in keys1 @ args)"

definition moveToFinished ::
  "('s, 'z) MinimalQueue_scheme \<Rightarrow> Job \<Rightarrow> jsval \<Rightarrow> string \<Rightarrow> jsval \<Rightarrow> string \<Rightarrow> string
     \<Rightarrow> bool \<Rightarrow> int \<Rightarrow> 's \<Rightarrow> (errval + jobTuple option) \<times> 's" where
  "moveToFinished queue job val propVal shouldRemove target token fetchNext now s =
     (let args = moveToFinishedArgs queue job val propVal shouldRemove target token fetchNext now;
          r = client queue ''moveToFinished'' args s
      in if replyNegative (fst r) then
           (Inl (finishedErrors (fst r) (job_id job) ''finished'' ''active''), snd r)
         else if replyTruthy (fst r) then
           (case raw2jobData (fst r) of
              Inl e \<Rightarrow> (Inl e, snd r)
            | Inr tuple \<Rightarrow> (Inr (Some tuple), snd r))
         else (Inr None, snd r))"

section \<open>Fetching the next job\<close>

datatype activeResult = DelayUntil int | Fetched jobTuple

text \<open>The argument array \<^verbatim>\<open>moveToActive\<close> hands to the script, then the call and the decoding.\<close>

definition moveToActiveArgs ::
  "('s, 'z) MinimalQueue_scheme \<Rightarrow> string \<Rightarrow> string option \<Rightarrow> int \<Rightarrow> jsval list" where
  "moveToActiveArgs worker token jobId now =
     (let wopts = opts worker;
          keys1 =
            [keyOf worker ''wait'', keyOf worker ''active'', keyOf worker ''priority'',
             keyOf worker ''events'', keyOf worker ''stalled'', keyOf worker ''limiter'',
             keyOf worker ''delayed'', keyOf worker ''delay''];
          args =
            [keyOf worker [], Str token, optNum (lockDuration wopts), Num now, optStr jobId]
            @ (case limiter wopts of
                 None \<Rightarrow> []
               | Some l \<Rightarrow>
                   [Num (limiterMax l), Num (limiterDuration l)]
                   @ (if truthy (optStr (groupKey l)) then [Bool True] else []))
      in keys1 @ args)"

definition moveToActive ::
  "('s, 'z) MinimalQueue_scheme \<Rightarrow> string \<Rightarrow> string option \<Rightarrow> int \<Rightarrow> 's
     \<Rightarrow> (errval + activeResult) \<times> 's" where
  "moveToActive worker token jobId now s =
     (let r = client worker ''moveToActive'' (moveToActiveArgs worker token jobId now) s
      in case fst r of
           IntReply n \<Rightarrow> (Inr (DelayUntil n), snd r)
         | _ \<Rightarrow>
             (case raw2jobData (fst r) of
                Inl e \<Rightarrow> (Inl e, snd r)
              | Inr tuple \<Rightarrow> (Inr (Fetched tuple), snd r)))"

section \<open>Adding and reprocessing\<close>

text \<open>The argument array \<^verbatim>\<open>addJob\<close> hands to the script, then the call itself.\<close>

definition addJobKeys ::
  "('s, 'z) MinimalQueue_scheme \<Rightarrow> JobJson \<Rightarrow> JobsOptions \<Rightarrow> string option
     \<Rightarrow> ParentOpts option \<Rightarrow> jsval list" where
  "addJobKeys queue job jopts jobId parentOpts =
     (let popts =
            (case parentOpts of
               None \<Rightarrow>
                 \<lparr>waitChildrenKey = Null, parentDependenciesKey = Null, parentKey = Null\<rparr>
             | Some given \<Rightarrow> given);
          keys1 =
            [keyOf queue ''wait'', keyOf queue ''paused'', keyOf queue ''meta'',
             keyOf queue ''id'', keyOf queue ''delayed'', keyOf queue ''priority'',
             keyOf queue ''events'', keyOf queue ''delay''];
          args =
            [keyOf queue [],
             Str (case jobId of Some given \<Rightarrow> given | None \<Rightarrow> []),
             Str (json_name job),
             json_data job,
             json_opts job,
             Num (json_timestamp job),
             optNum (delay jopts),
             Num (if truthy (optNum (delay jopts))
                  then json_timestamp job + (case delay jopts of None \<Rightarrow> 0 | Some d \<Rightarrow> d)
                  else 0),
             (if truthy (optNum (priority jopts)) then optNum (priority jopts) else Num 0),
             Str (if lifo jopts = Some True then ''RPUSH'' else ''LPUSH''),
             parentKey popts,
             waitChildrenKey popts,
             parentDependenciesKey popts]
      in keys1 @ args)"

definition addJob ::
  "(string \<Rightarrow> jsval list \<Rightarrow> 's \<Rightarrow> reply \<times> 's) \<Rightarrow> ('s, 'z) MinimalQueue_scheme \<Rightarrow> JobJson
     \<Rightarrow> JobsOptions \<Rightarrow> string option \<Rightarrow> ParentOpts option \<Rightarrow> 's \<Rightarrow> reply \<times> 's" where
  "addJob client' queue job jopts jobId parentOpts s =
     client' ''addJob'' (addJobKeys queue job jopts jobId parentOpts) s"

text \<open>\<^verbatim>\<open>job.opts.lifo\<close> is read without a guard: a job without options raises.\<close>

definition reprocessJob ::
  "('s, 'z) MinimalQueue_scheme \<Rightarrow> Job \<Rightarrow> string \<Rightarrow> 's \<Rightarrow> (errval + reply) \<times> 's" where
  "reprocessJob queue job state s =
     (case job_opts job of
        None \<Rightarrow> (Inl TypeError, s)
      | Some jo \<Rightarrow>
          (let keys1 =
                 [Str (toKey queue (job_id job)),
                  keyOf queue ''events'',
                  Str (toKey queue state),
                  Str (toKey queue ''wait'')];
               args =
                 [Str (job_id job),
                  Str ((if lifo jo = Some True then ''R'' else ''L'') @ ''PUSH'')];
               r = client queue ''reprocessJob'' (keys1 @ args) s
           in (Inr (fst r), snd r)))"

section \<open>Pausing and obliterating\<close>

definition Scripts_pause ::
  "('s, 'z) MinimalQueue_scheme \<Rightarrow> bool \<Rightarrow> 's \<Rightarrow> reply \<times> 's" where
  "Scripts_pause queue pause' s =
     (let src = (if \<not> pause' then ''paused'' else ''wait'');
          dst = (if \<not> pause' then ''wait'' else ''paused'');
          keys1 = map (\<lambda>name. Str (toKey queue name)) [src, dst, ''meta''];
          keys2 = keys1 @ [keyOf queue ''events'']
      in client queue ''pause'' (keys2 @ [Str (if pause' then ''paused'' else ''resumed'')]) s)"

text \<open>
  The options that \<^verbatim>\<open>Scripts.obliterate\<close> reads. They are declared a boolean and a number,
  and the caller can still hand over \<^verbatim>\<open>undefined\<close> (\<open>None\<close>) for either.
\<close>

record ObliterateOpts =
  force :: "bool option"
  count :: "int option"

text \<open>The argument array \<^verbatim>\<open>Scripts.obliterate\<close> hands to the script, then the call itself.\<close>

definition obliterateArgs :: "('s, 'z) MinimalQueue_scheme \<Rightarrow> ObliterateOpts \<Rightarrow> jsval list" where
  "obliterateArgs queue oopts =
     (let keys1 = [keyOf queue ''meta'', Str (toKey queue [])];
          args = [optNum (count oopts),
                  (if force oopts = Some True then Str ''force'' else Null)]
      in keys1 @ args)"

definition Scripts_obliterate ::
  "('s, 'z) MinimalQueue_scheme \<Rightarrow> ObliterateOpts \<Rightarrow> 's \<Rightarrow> (errval + reply) \<times> 's" where
  "Scripts_obliterate queue oopts s =
     (let r = client queue ''obliterate'' (obliterateArgs queue oopts) s
      in if replyNegative (fst r) then
           (if fst r = IntReply (- 1) then
              (Inl (Error ''Cannot obliterate non-paused queue''), snd r)
            else if fst r = IntReply (- 2) then
              (Inl (Error ''Cannot obliterate queue with active jobs''), snd r)
            else (Inr (fst r), snd r))
         else (Inr (fst r), snd r))"

section \<open>The queue class\<close>

record QueueLimiter =
  queueGroupKey :: "string option"

record 's Queue = "'s MinimalQueue" +
  limiter_q :: "QueueLimiter option"

text \<open>
  A property of the options object that the caller of \<^verbatim>\<open>Queue.obliterate\<close> may leave out:
  the object does not have it, has it with the value \<^verbatim>\<open>undefined\<close>, or has it with a value.
\<close>

datatype 'a property = Absent | ExplicitUndefined | Given 'a

record ObliterateOptions =
  force_opt :: "bool property"
  count_opt :: "int property"

definition Queue_pause :: "('s, 'z) MinimalQueue_scheme \<Rightarrow> 's \<Rightarrow> 's" where
  "Queue_pause queue s = emit queue ''paused'' (snd (Scripts_pause queue True s))"

text \<open>
  The loop of \<^verbatim>\<open>Queue.obliterate\<close> runs the script again while the cursor it returned is
  truthy; nothing bounds the number of rounds, so the loop is a partial function and
  \<open>None\<close> stands for a run that never ends.
\<close>

partial_function (option) obliterate_loop ::
  "('s, 'z) MinimalQueue_scheme \<Rightarrow> ObliterateOpts \<Rightarrow> 's \<Rightarrow> ((errval + unit) \<times> 's) option" where
  "obliterate_loop queue oopts s =
     (let r = Scripts_obliterate queue oopts s
      in case fst r of
           Inl e \<Rightarrow> Some (Inl e, snd r)
         | Inr cursor \<Rightarrow>
             if replyTruthy cursor then obliterate_loop queue oopts (snd r)
             else Some (Inr (), snd r))"

text \<open>
  The object \<^verbatim>\<open>{force: false, count: 1000, ...opts}\<close>: the spread copies every property that
  \<^verbatim>\<open>opts\<close> has, also one whose value is \<^verbatim>\<open>undefined\<close>, over the default; a property that
  \<^verbatim>\<open>opts\<close> does not have keeps the default, and so does every property when there is no
  \<^verbatim>\<open>opts\<close>.
\<close>

definition obliterateDefaults :: "ObliterateOptions option \<Rightarrow> ObliterateOpts" where
  "obliterateDefaults opts' =
     \<lparr>force = (case opts' of
                 None \<Rightarrow> Some False
               | Some given \<Rightarrow>
                   (case force_opt given of
                      Absent \<Rightarrow> Some False
                    | ExplicitUndefined \<Rightarrow> None
                    | Given b \<Rightarrow> Some b)),
      count = (case opts' of
                 None \<Rightarrow> Some 1000
               | Some given \<Rightarrow>
                   (case count_opt given of
                      Absent \<Rightarrow> Some 1000
                    | ExplicitUndefined \<Rightarrow> None
                    | Given n \<Rightarrow> Some n))\<rparr>"

definition Queue_obliterate ::
  "('s, 'z) MinimalQueue_scheme \<Rightarrow> ObliterateOptions option \<Rightarrow> 's
     \<Rightarrow> ((errval + unit) \<times> 's) option" where
  "Queue_obliterate queue opts' s =
     obliterate_loop queue (obliterateDefaults opts') (Queue_pause queue s)"

text \<open>
  For reading a run of the loop: the cursor that the script returns when it is invoked in
  state \<open>s\<close>, the state it leaves, and the state after \<open>n\<close> invocations.
\<close>

definition obliterateCursor ::
  "('s, 'z) MinimalQueue_scheme \<Rightarrow> ObliterateOpts \<Rightarrow> 's \<Rightarrow> reply" where
  "obliterateCursor queue oopts s = fst (client queue ''obliterate'' (obliterateArgs queue oopts) s)"

definition obliterateRound ::
  "('s, 'z) MinimalQueue_scheme \<Rightarrow> ObliterateOpts \<Rightarrow> 's \<Rightarrow> 's" where
  "obliterateRound queue oopts s = snd (client queue ''obliterate'' (obliterateArgs queue oopts) s)"

fun obliterateRounds ::
  "('s, 'z) MinimalQueue_scheme \<Rightarrow> ObliterateOpts \<Rightarrow> nat \<Rightarrow> 's \<Rightarrow> 's" where
  "obliterateRounds queue oopts 0 s = s"
| "obliterateRounds queue oopts (Suc n) s =
     obliterateRounds queue oopts n (obliterateRound queue oopts s)"

text \<open>A cursor on which the loop goes round again: truthy, and not one of the two errors.\<close>

definition cursorContinues :: "reply \<Rightarrow> bool" where
  "cursorContinues r = (replyTruthy r \<and> r \<noteq> IntReply (- 1) \<and> r \<noteq> IntReply (- 2))"

text \<open>What the loop returns when it leaves at a cursor that does not continue.\<close>

definition loopExit :: "reply \<Rightarrow> errval + unit" where
  "loopExit r =
     (if r = IntReply (- 1) then Inl (Error ''Cannot obliterate non-paused queue'')
      else if r = IntReply (- 2) then Inl (Error ''Cannot obliterate queue with active jobs'')
      else Inr ())"

subsection \<open>Group ids\<close>

text \<open>
  \<^verbatim>\<open>get\<close> and \<^verbatim>\<open>isUndefined\<close> are functions of the library lodash, which is not part of the
  repository, and the payload of a job is of any type. So the resolver is a parameter:
  \<open>lodashGet data path\<close> is what \<^verbatim>\<open>get(data, path)\<close> resolves to, \<open>None\<close> when that is
  \<^verbatim>\<open>undefined\<close>, the case \<^verbatim>\<open>isUndefined\<close> tests for. The value found is of any type as well;
  \<open>toString'\<close> is its conversion to a string inside the template literal, which raises on
  some values (a symbol). The path itself is read from the field \<^verbatim>\<open>limiter.groupKey\<close> of
  the queue. \<^verbatim>\<open>v4()\<close> draws a fresh identifier; the identifier drawn is the parameter \<open>v4\<close>.
\<close>

definition jobIdForGroup ::
  "('d \<Rightarrow> string option \<Rightarrow> 'v option) \<Rightarrow> ('v \<Rightarrow> errval + string)
     \<Rightarrow> ('s, 'z) Queue_scheme \<Rightarrow> JobsOptions option \<Rightarrow> 'd \<Rightarrow> string
     \<Rightarrow> errval + string option" where
  "jobIdForGroup lodashGet toString' queue jopts data' v4 =
     (let jobId = (case jopts of None \<Rightarrow> None | Some given \<Rightarrow> jobId_opt given);
          groupKeyPath = (case limiter_q queue of None \<Rightarrow> None | Some l \<Rightarrow> queueGroupKey l);
          groupKey' = lodashGet data' groupKeyPath
      in case (truthy (optStr groupKeyPath), groupKey') of
           (True, Some g) \<Rightarrow>
             (case toString' g of
                Inl e \<Rightarrow> Inl e
              | Inr text \<Rightarrow>
                  Inr (Some ((case jobId of
                                None \<Rightarrow> v4
                              | Some given \<Rightarrow> if truthy (Str given) then given else v4)
                             @ '':'' @ text)))
         | _ \<Rightarrow> Inr jobId)"

section \<open>The store and two scripts, from the specification\<close>

text \<open>
  Modelled from the spec: the store (not among the sources, as the server-side scripts that
  the wrappers above call). Section 3: under its key a container is a string (a lock), a
  list (\<^verbatim>\<open>wait\<close>, \<^verbatim>\<open>paused\<close>, \<^verbatim>\<open>active\<close>), a set (\<^verbatim>\<open>waiting-children\<close>, the dependencies of a
  job), a sorted set (\<^verbatim>\<open>completed\<close>, \<^verbatim>\<open>failed\<close>) or a hash (a job, \<^verbatim>\<open>meta\<close>). A container read
  under a key that holds none, or one of another kind, is empty.
\<close>

datatype rvalue =
    RString string
  | RList "string list"
  | RSet "string set"
  | RZSet "(string \<times> int) list"
  | RHash "(string \<times> string) list"

type_synonym store = "string \<Rightarrow> rvalue option"

definition listAt :: "store \<Rightarrow> string \<Rightarrow> string list" where
  "listAt st k = (case st k of Some (RList xs) \<Rightarrow> xs | _ \<Rightarrow> [])"

definition setAt :: "store \<Rightarrow> string \<Rightarrow> string set" where
  "setAt st k = (case st k of Some (RSet xs) \<Rightarrow> xs | _ \<Rightarrow> {})"

definition zsetAt :: "store \<Rightarrow> string \<Rightarrow> (string \<times> int) list" where
  "zsetAt st k = (case st k of Some (RZSet xs) \<Rightarrow> xs | _ \<Rightarrow> [])"

text \<open>
  Modelled from the spec: the key space of a queue (\<^verbatim>\<open>QueueBase\<close>, not among the sources).
  Section 4.1: every key is \<^verbatim>\<open><prefix>:<name>:<suffix>\<close>, the suffix naming a logical
  container or a job id; the table of the queue holds the containers of section 3 and the
  empty suffix.
\<close>

definition keySpace :: "string \<Rightarrow> string \<Rightarrow> string \<Rightarrow> string" where
  "keySpace prefix qname suffix = prefix @ '':'' @ qname @ '':'' @ suffix"

definition containerNames :: "string list" where
  "containerNames =
     [[], ''wait'', ''paused'', ''priority'', ''delayed'', ''active'', ''completed'', ''failed'',
      ''waiting-children'', ''stalled'', ''meta'', ''events'', ''id'', ''delay'', ''limiter'',
      ''stalled-check'']"

definition queueOf ::
  "string \<Rightarrow> string \<Rightarrow> WorkerOptions \<Rightarrow> (string \<Rightarrow> jsval list \<Rightarrow> 's \<Rightarrow> reply \<times> 's)
     \<Rightarrow> 's MinimalQueue" where
  "queueOf prefix qname wopts script =
     \<lparr>toKey = keySpace prefix qname,
      keys = (\<lambda>n. if n \<in> set containerNames then Some (keySpace prefix qname n) else None),
      opts = wopts,
      closing = False,
      client = script,
      emit = (\<lambda>event s. s)\<rparr>"

text \<open>
  Modelled from the spec: the script \<^verbatim>\<open>moveToWaitingChildren\<close> (not among the sources).
  Section 4.3: ``If \<^verbatim>\<open><id>:dependencies\<close> is empty, returns 0 (no-op, job keeps active). Else
  verifies lock+token, removes id from \<^verbatim>\<open>active\<close>, adds to \<^verbatim>\<open>waiting-children\<close>. Returns 1.''
  A lock that is missing or holds another token is code -2 of section 6. The keys and
  arguments are the eight the wrapper passes.
\<close>

definition moveToWaitingChildren_script :: "jsval list \<Rightarrow> store \<Rightarrow> reply \<times> store" where
  "moveToWaitingChildren_script args st =
     (case args of
        [Str lockKey, Str activeKey, Str waitingChildrenKey, Str jobKey,
         Str token, Str childKey, Str timestamp, Str jobId] \<Rightarrow>
          if setAt st (jobKey @ '':dependencies'') = {} then (IntReply 0, st)
          else if st lockKey = Some (RString token) then
            (IntReply 1,
             st(activeKey \<mapsto> RList (removeAll jobId (listAt st activeKey)),
                waitingChildrenKey \<mapsto> RSet (insert jobId (setAt st waitingChildrenKey))))
          else (IntReply (- 2), st)
      | _ \<Rightarrow> (NilReply, st))"

text \<open>
  Modelled from the spec: the script \<^verbatim>\<open>reprocessJob\<close> (not among the sources).
  Section 4.3: ``Moves id from \<^verbatim>\<open>completed\<close>/\<^verbatim>\<open>failed\<close> back to \<^verbatim>\<open>wait\<close>/\<^verbatim>\<open>paused\<close> (LPUSH or
  RPUSH per \<^verbatim>\<open>lifo\<close>). Returns 1 ok, 0 missing, -1 locked, -2 not in expected state.''
  Section 3: the queue is paused iff \<^verbatim>\<open>meta.paused\<close> exists, and a paused queue takes
  arrivals in \<^verbatim>\<open>paused\<close>. The wrapper passes the job key, the events key, the key of the
  expected set and the key of \<^verbatim>\<open>wait\<close>; the keys of \<^verbatim>\<open>paused\<close> and \<^verbatim>\<open>meta\<close> are parameters
  of the model.
\<close>

definition pushOnto :: "string \<Rightarrow> string \<Rightarrow> string list \<Rightarrow> string list" where
  "pushOnto cmd x xs = (if cmd = ''RPUSH'' then xs @ [x] else x # xs)"

definition isPaused :: "store \<Rightarrow> string \<Rightarrow> bool" where
  "isPaused st metaKey =
     (case st metaKey of Some (RHash hs) \<Rightarrow> map_of hs ''paused'' \<noteq> None | _ \<Rightarrow> False)"

definition reprocessJob_script ::
  "string \<Rightarrow> string \<Rightarrow> jsval list \<Rightarrow> store \<Rightarrow> reply \<times> store" where
  "reprocessJob_script pausedKey metaKey args st =
     (case args of
        [Str jobKey, Str eventsKey, Str stateKey, Str waitKey, Str jobId, Str pushCmd] \<Rightarrow>
          if st jobKey = None then (IntReply 0, st)
          else if st (jobKey @ '':lock'') \<noteq> None then (IntReply (- 1), st)
          else if map_of (zsetAt st stateKey) jobId = None then (IntReply (- 2), st)
          else
            (let target = (if isPaused st metaKey then pausedKey else waitKey)
             in (IntReply 1,
                 st(stateKey \<mapsto> RZSet (filter (\<lambda>e. fst e \<noteq> jobId) (zsetAt st stateKey)),
                    target \<mapsto> RList (pushOnto pushCmd jobId (listAt st target)))))
      | _ \<Rightarrow> (NilReply, st))"

section \<open>A concrete queue\<close>

text \<open>
  The queue \<^verbatim>\<open>bull:q\<close> with default worker options, and a script client that gives one
  fixed reply and leaves the state alone.
\<close>

definition exampleQueue ::
  "(string \<Rightarrow> jsval list \<Rightarrow> 's \<Rightarrow> reply \<times> 's) \<Rightarrow> 's MinimalQueue" where
  "exampleQueue script =
     queueOf ''bull'' ''q'' \<lparr>lockDuration = Some 30000, limiter = None\<rparr> script"

definition replying :: "reply \<Rightarrow> string \<Rightarrow> jsval list \<Rightarrow> unit \<Rightarrow> reply \<times> unit" where
  "replying r cmd args s = (r, s)"

definition exampleJob :: Job where
  "exampleJob =
     \<lparr>job_id = ''7'',
      job_opts = Some \<lparr>delay = None, priority = None, lifo = None, jobId_opt = None,
                       parent = None\<rparr>\<rparr>"

text \<open>
  An example payload, given by the values that its paths resolve to: a string, a number or
  a symbol. A string converts to itself and a number to its digits; on a symbol the
  conversion raises.
\<close>

datatype groupValue = TextValue string | NumberValue int | SymbolValue

definition examplePayload :: "(string \<times> groupValue) list" where
  "examplePayload =
     [(''user.id'', NumberValue 42), (''user.name'', TextValue ''ada''),
      (''user.tag'', SymbolValue)]"

definition exampleGet ::
  "(string \<times> groupValue) list \<Rightarrow> string option \<Rightarrow> groupValue option" where
  "exampleGet payload path = (case path of None \<Rightarrow> None | Some p \<Rightarrow> map_of payload p)"

definition exampleToString :: "groupValue \<Rightarrow> errval + string" where
  "exampleToString v =
     (case v of
        TextValue s \<Rightarrow> Inr s
      | NumberValue n \<Rightarrow> Inr (numberToString n)
      | SymbolValue \<Rightarrow> Inl TypeError)"

text \<open>The same queue as an instance of the queue class, with a limiter group key.\<close>

definition groupQueue :: "string option \<Rightarrow> unit Queue" where
  "groupQueue path =
     (let q = exampleQueue (replying NilReply)
      in \<lparr>toKey = toKey q, keys = keys q, opts = opts q, closing = closing q,
          client = client q, emit = emit q,
          limiter_q = Some \<lparr>queueGroupKey = path\<rparr>\<rparr>)"

text \<open>
  A script client over a counter: \<^verbatim>\<open>obliterate\<close> takes one off the counter and returns what
  is left as the cursor; every other script leaves the counter alone.
\<close>

definition countdownScript :: "string \<Rightarrow> jsval list \<Rightarrow> nat \<Rightarrow> reply \<times> nat" where
  "countdownScript cmd args s =
     (if cmd = ''obliterate'' then (IntReply (int (s - 1)), s - 1) else (NilReply, s))"

text \<open>
  A store for the queue \<^verbatim>\<open>bull:q\<close>: job 7 is active under the lock token \<^verbatim>\<open>tok\<close> and waits
  for its child 9, job 8 is active without children, job 5 has failed, job 3 is waiting.
\<close>

definition exampleStore :: store where
  "exampleStore =
     [''bull:q:active'' \<mapsto> RList [''7'', ''8''],
      ''bull:q:wait'' \<mapsto> RList [''3''],
      ''bull:q:failed'' \<mapsto> RZSet [(''5'', 1000)],
      ''bull:q:3'' \<mapsto> RHash [(''name'', ''mail'')],
      ''bull:q:5'' \<mapsto> RHash [(''name'', ''mail'')],
      ''bull:q:7'' \<mapsto> RHash [(''name'', ''mail'')],
      ''bull:q:8'' \<mapsto> RHash [(''name'', ''mail'')],
      ''bull:q:7:lock'' \<mapsto> RString ''tok'',
      ''bull:q:8:lock'' \<mapsto> RString ''tok'',
      ''bull:q:7:dependencies'' \<mapsto> RSet {''bull:q:9''}]"

definition jobWith :: "string \<Rightarrow> bool option \<Rightarrow> Job" where
  "jobWith jid l =
     \<lparr>job_id = jid,
      job_opts = Some \<lparr>delay = None, priority = None, lifo = l, jobId_opt = None,
                       parent = None\<rparr>\<rparr>"

text \<open>The reprocess script as the script client of the queue \<^verbatim>\<open>bull:q\<close>.\<close>

definition reprocessQueue :: "store MinimalQueue" where
  "reprocessQueue =
     exampleQueue (\<lambda>cmd. reprocessJob_script (keySpace ''bull'' ''q'' ''paused'')
                                             (keySpace ''bull'' ''q'' ''meta''))"

section \<open>Evaluation on concrete inputs\<close>

lemmas toNumber_eval = toNumber_def trim_def isWhiteSpace_def nonDecimalLiteral_def
  strDecimalLiteral_def splitSign_def exponentPart_def allDigits_def isDigitIn_def
  digitOf_def digitsValue_def toInt32_def Let_def roundDecimal_def roundRatio_def
  floorLog2_def roundHalfEven_def bitLength.simps

lemmas number_eval = jsonArg_def overflows_def flInt_def numberToString_def doubleDigits_def
  showDigits.simps

lemma client_exampleQueue [simp]: "client (exampleQueue script) = script"
  by (simp add: exampleQueue_def queueOf_def)

lemma toKey_exampleQueue [simp]: "toKey (exampleQueue script) t = ''bull:q:'' @ t"
  by (simp add: exampleQueue_def queueOf_def keySpace_def)

text \<open>The keys of a queue built by \<open>queueOf\<close>.\<close>

lemma keySpace_inj [simp]: "(keySpace p q a = keySpace p q b) = (a = b)"
  by (simp add: keySpace_def)

lemma queueOf_simps [simp]:
  "toKey (queueOf p q w script) = keySpace p q"
  "client (queueOf p q w script) = script"
  by (simp_all add: queueOf_def)

lemma keyOf_queueOf:
  "n \<in> set containerNames \<Longrightarrow> keyOf (queueOf p q w script) n = Str (keySpace p q n)"
  by (simp add: keyOf_def queueOf_def)

lemma keyOf_queueOf_events [simp]:
  "keyOf (queueOf p q w script) ''events'' = Str (keySpace p q ''events'')"
  by (rule keyOf_queueOf) (simp add: containerNames_def)


section \<open>Integers below \<open>2 ^ 53\<close> are exact\<close>

lemma bitLength_le: "0 \<le> n \<Longrightarrow> n < 2 ^ k \<Longrightarrow> bitLength n \<le> int k"
proof (induction k arbitrary: n)
  case 0
  then have "n = 0" by simp
  then show ?case by (simp add: bitLength.simps)
next
  case (Suc k)
  show ?case
  proof (cases "n \<le> 0")
    case True
    then show ?thesis by (simp add: bitLength.simps)
  next
    case False
    from Suc.prems have "n div 2 < 2 ^ k" by simp
    moreover from Suc.prems have "0 \<le> n div 2" by simp
    ultimately have "bitLength (n div 2) \<le> int k" by (rule Suc.IH [rotated])
    with False show ?thesis by (subst bitLength.simps) simp
  qed
qed



lemma roundHalfEven_one: "roundHalfEven a 1 = a"
  by (simp add: roundHalfEven_def)


lemma flInt_small: "\<bar>n\<bar> < 2 ^ 53 \<Longrightarrow> flInt n = n"
  by (simp add: flInt_def)



lemma floorLog2_one: "floorLog2 a 1 \<le> bitLength a - 1"
proof -
  have "bitLength 1 = 1"
    by (simp add: bitLength.simps)
  then show ?thesis
    by (simp add: floorLog2_def Let_def)
qed

lemma roundRatio_int:
  assumes "0 \<le> n" and "n < 2 ^ 53"
  shows "\<exists>k. roundRatio n 1 = Finite (n * 2 ^ k) (- int k)"
proof (cases "n = 0")
  case True
  have "roundRatio 0 1 = Finite (0 * 2 ^ 0) (- int 0)"
    by (simp add: roundRatio_def)
  with True show ?thesis by blast
next
  case False
  define e where "e = max (floorLog2 n 1 - 52) (- 1074)"
  have "bitLength n \<le> int 53"
    using assms by (rule bitLength_le)
  with floorLog2_one [of n] have e: "e \<le> 0"
    by (simp add: e_def)
  have "roundRatio n 1 = Finite (n * 2 ^ nat (- e)) (- int (nat (- e)))"
  proof (cases "e = 0")
    case True
    with False assms(2) show ?thesis
      by (simp add: roundRatio_def e_def [symmetric] Let_def roundHalfEven_one)
  next
    case neg: False
    with e have "\<not> 0 \<le> e" by simp
    with False e show ?thesis
      by (simp add: roundRatio_def e_def [symmetric] Let_def roundHalfEven_one)
  qed
  then show ?thesis by blast
qed

lemma toInt32_int:
  assumes "0 \<le> n"
  shows "toInt32 (Finite (n * 2 ^ k) (- int k)) = signed_take_bit 31 n"
proof (cases "k = 0")
  case True
  then show ?thesis by (simp add: toInt32_def)
next
  case False
  from assms have "\<bar>n * 2 ^ k\<bar> div 2 ^ k = n"
    by (simp add: abs_mult)
  moreover have "sgn (n * 2 ^ k) * n = n"
    using assms by (cases "n = 0") (simp_all add: sgn_mult)
  ultimately have "sgn (n * 2 ^ k) * (\<bar>n * 2 ^ k\<bar> div 2 ^ k) = n"
    by simp
  then show ?thesis
    using False by (simp add: toInt32_def)
qed

lemma roundDecimal_int:
  assumes "0 \<le> n" and "n < 2 ^ 53"
  shows "toInt32 (roundDecimal n 0) = signed_take_bit 31 n"
proof -
  from roundRatio_int [OF assms] obtain k where k: "roundRatio n 1 = Finite (n * 2 ^ k) (- int k)"
    by blast
  have s: "sgn n * (n * 2 ^ k) = n * 2 ^ k"
    using assms(1) by (cases "n = 0") simp_all
  have "roundDecimal n 0 = Finite (n * 2 ^ k) (- int k)"
    using assms(1) by (simp add: roundDecimal_def k s)
  then show ?thesis
    by (simp add: toInt32_int [OF assms(1)])
qed

lemma doubleDigits_small: "v < 2 ^ 53 \<Longrightarrow> doubleDigits v = showDigits v"
  by (simp add: doubleDigits_def)

lemma numberToString_small:
  assumes "0 \<le> n" and "n < 2 ^ 53"
  shows "numberToString n = showDigits n"
  using assms by (simp add: numberToString_def flInt_def doubleDigits_def)


section \<open>Numeric ids\<close>

lemma digit_cases:
  fixes k :: int
  assumes "0 \<le> k" and "k < 10"
  shows "k = 0 \<or> k = 1 \<or> k = 2 \<or> k = 3 \<or> k = 4 \<or> k = 5 \<or> k = 6 \<or> k = 7 \<or> k = 8 \<or> k = 9"
  using assms by presburger

lemma digitOf_digit:
  fixes k :: int
  assumes "0 \<le> k" and "k < 10"
  shows "digitOf (''0123456789'' ! nat k) = Some k"
  using digit_cases [OF assms] by (elim disjE) (simp_all add: digitOf_def)

lemma decimal_char:
  assumes "c \<in> set ''0123456789''"
  shows "isDigitIn 10 c" and "\<not> isWhiteSpace c" and "c \<noteq> CHR ''-''" and "c \<noteq> CHR ''+''"
    and "c \<noteq> CHR ''x''" and "c \<noteq> CHR ''X''" and "c \<noteq> CHR ''o''" and "c \<noteq> CHR ''O''"
    and "c \<noteq> CHR ''b''" and "c \<noteq> CHR ''B''" and "c \<noteq> CHR ''I''"
  using assms by (auto simp add: isDigitIn_def digitOf_def isWhiteSpace_def)

lemma digit_char_mem:
  fixes k :: int
  assumes "0 \<le> k" and "k < 10"
  shows "''0123456789'' ! nat k \<in> set ''0123456789''"
  using digit_cases [OF assms] by (elim disjE) simp_all

lemma showDigits_nonempty: "showDigits n \<noteq> []"
  by (subst showDigits.simps) simp

lemma showDigits_chars: "0 \<le> n \<Longrightarrow> set (showDigits n) \<subseteq> set ''0123456789''"
proof (induction n rule: showDigits.induct)
  case (1 n)
  show ?case
  proof (cases "n < 10")
    case True
    with "1.prems" have "''0123456789'' ! nat n \<in> set ''0123456789''"
      by (intro digit_char_mem)
    with True show ?thesis
      by (subst showDigits.simps) simp
  next
    case False
    with "1.prems" have d: "0 \<le> n div 10" by simp
    have m: "''0123456789'' ! nat (n mod 10) \<in> set ''0123456789''"
      by (intro digit_char_mem) simp_all
    from "1.IH" [OF False d] m False show ?thesis
      by (subst showDigits.simps) simp
  qed
qed

lemma digitsValue_snoc:
  "digitsValue b (xs @ [c]) =
     digitsValue b xs * b + (case digitOf c of None \<Rightarrow> 0 | Some d \<Rightarrow> d)"
  by (simp add: digitsValue_def)

lemma digitsValue_showDigits: "0 \<le> n \<Longrightarrow> digitsValue 10 (showDigits n) = n"
proof (induction n rule: showDigits.induct)
  case (1 n)
  show ?case
  proof (cases "n < 10")
    case True
    with "1.prems" have "digitOf (''0123456789'' ! nat n) = Some n"
      by (intro digitOf_digit)
    with True show ?thesis
      by (subst showDigits.simps) (simp add: digitsValue_def)
  next
    case False
    with "1.prems" have d: "0 \<le> n div 10" by simp
    have m: "digitOf (''0123456789'' ! nat (n mod 10)) = Some (n mod 10)"
      by (intro digitOf_digit) simp_all
    from "1.IH" [OF False d] m False show ?thesis
      by (subst showDigits.simps) (simp add: digitsValue_snoc)
  qed
qed

lemma dropWhile_none: "\<forall>c\<in>set xs. \<not> P c \<Longrightarrow> dropWhile P xs = xs"
  by (cases xs) simp_all

lemma trim_decimal:
  assumes "set s \<subseteq> set ''0123456789''"
  shows "trim s = s"
proof -
  have ws: "\<forall>c\<in>set s. \<not> isWhiteSpace c"
    using assms decimal_char(2) by blast
  then have "\<forall>c\<in>set (rev s). \<not> isWhiteSpace c"
    by simp
  then have "dropWhile isWhiteSpace (rev s) = rev s"
    by (rule dropWhile_none)
  moreover from ws have "dropWhile isWhiteSpace s = s"
    by (rule dropWhile_none)
  ultimately show ?thesis
    by (simp add: trim_def)
qed

lemma strDecimalLiteral_decimal:
  assumes "s \<noteq> []" and "set s \<subseteq> set ''0123456789''"
  shows "strDecimalLiteral s = roundDecimal (digitsValue 10 s) 0"
proof -
  from assms obtain c r where s: "s = c # r" by (cases s) auto
  with assms(2) have c: "c \<in> set ''0123456789''" by simp
  then have sign: "splitSign s = (False, s)"
    using decimal_char(3,4) by (simp add: s splitSign_def)
  from c have "c \<noteq> CHR ''I''" by (rule decimal_char)
  then have inf: "s \<noteq> ''Infinity''" by (simp add: s)
  have all: "\<forall>x\<in>set s. isDigitIn 10 x"
    using assms(2) decimal_char(1) by blast
  then have tw: "takeWhile (isDigitIn 10) s = s" and dw: "dropWhile (isDigitIn 10) s = []"
    by simp_all
  show ?thesis
    by (simp add: strDecimalLiteral_def sign inf tw dw exponentPart_def Let_def assms(1))
qed

lemma toNumber_decimal:
  assumes "s \<noteq> []" and "set s \<subseteq> set ''0123456789''"
  shows "toNumber s = roundDecimal (digitsValue 10 s) 0"
proof -
  have no: "take 2 s \<noteq> ''0x''" "take 2 s \<noteq> ''0X''" "take 2 s \<noteq> ''0o''"
    "take 2 s \<noteq> ''0O''" "take 2 s \<noteq> ''0b''" "take 2 s \<noteq> ''0B''"
  proof -
    have sub: "set (take 2 s) \<subseteq> set ''0123456789''"
      using assms(2) set_take_subset by fastforce
    show "take 2 s \<noteq> ''0x''" using sub by auto
    show "take 2 s \<noteq> ''0X''" using sub by auto
    show "take 2 s \<noteq> ''0o''" using sub by auto
    show "take 2 s \<noteq> ''0O''" using sub by auto
    show "take 2 s \<noteq> ''0b''" using sub by auto
    show "take 2 s \<noteq> ''0B''" using sub by auto
  qed
  show ?thesis
    by (simp add: toNumber_def trim_decimal [OF assms(2)] assms(1) no
        strDecimalLiteral_decimal [OF assms] Let_def)
qed

text \<open>
  The id that the counter of the queue allocates is the decimal text of a number \<open>n\<close>; while
  \<open>n\<close> is below \<open>2 ^ 53\<close> the bits that go into the score are \<open>n mod 4096\<close>.
\<close>

lemma numericId_decimal:
  assumes "0 \<le> n" and "n < 2 ^ 53"
  shows "toInt32 (toNumber (numberToString n)) AND 0xFFF = n mod 4096"
proof -
  have s: "numberToString n = showDigits n"
    using assms by (rule numberToString_small)
  have t: "toNumber (numberToString n) = roundDecimal n 0"
    by (simp add: s toNumber_decimal [OF showDigits_nonempty showDigits_chars [OF assms(1)]]
        digitsValue_showDigits [OF assms(1)])
  have "toInt32 (roundDecimal n 0) AND 0xFFF = take_bit 12 (signed_take_bit 31 n)"
    by (simp add: roundDecimal_int [OF assms] take_bit_eq_mask mask_eq_exp_minus_1)
  also have "\<dots> = take_bit 12 n"
    by (simp add: take_bit_signed_take_bit)
  finally show ?thesis
    by (simp add: t take_bit_eq_mod)
qed

text \<open>
  From \<open>2 ^ 53\<close> on the id is rounded before its bits are taken, and a score of \<open>2 ^ 53\<close> or
  more is rounded: the id 1234567890123456789 is the double 1234567890123456768, with the
  low bits 256, and at the timestamp \<open>2 ^ 41 + 1\<close> the score of job 1 is
  9007199254745088, one below the exact sum.
\<close>

lemma rounded_id: "toInt32 (toNumber ''1234567890123456789'') AND 0xFFF = 256"
  by (simp add: toNumber_eval)

lemma rounded_score:
  "changeDelayArgs (exampleQueue (replying NilReply)) ''1'' (2 ^ 41 + 1) ! 4 =
     Str ''9007199254745088''"
proof -
  have n: "toInt32 (toNumber ''1'') AND 0xFFF = 1"
    by (simp add: toNumber_eval)
  have f: "flInt 9007199254745089 = 9007199254745088"
    by (simp add: flInt_def roundHalfEven_def bitLength.simps)
  have j: "jsonArg (Num 9007199254745088) = Str ''9007199254745088''"
    by (simp add: number_eval roundHalfEven_def bitLength.simps shortestDecimal.simps
        pickDecimal_def)
  show ?thesis
    by (simp add: changeDelayArgs_def n f j flInt_small)
qed

section \<open>The composite score of a delayed job\<close>




section \<open>Error codes the table does not list\<close>

text \<open>
  C10. For a negative result code outside \<open>{-1, -2, -3, -4}\<close>, \<^verbatim>\<open>finishedErrors\<close> falls
  through its switch and gives \<^verbatim>\<open>undefined\<close>, so \<^verbatim>\<open>moveToFinished\<close>, \<^verbatim>\<open>moveToDelayed\<close> and
  \<^verbatim>\<open>changeDelay\<close>, which throw what it gives, throw \<^verbatim>\<open>undefined\<close> and not an \<^verbatim>\<open>Error\<close>.
\<close>

theorem unknown_negative_codes:
  assumes "code < 0" and "code \<notin> {- 1, - 2, - 3, - 4}"
  shows "finishedErrors (IntReply code) jobId command state = UndefinedValue
    \<and> (fst (client queue ''moveToFinished''
              (moveToFinishedArgs queue job val propVal shouldRemove target token fetchNext now) s)
          = IntReply code
        \<longrightarrow> fst (moveToFinished queue job val propVal shouldRemove target token fetchNext now s)
          = Inl UndefinedValue)
    \<and> (fst (client queue ''moveToDelayed'' (moveToDelayedArgs queue jobId ts) s) = IntReply code
        \<longrightarrow> fst (moveToDelayed queue jobId ts s) = Inl UndefinedValue)
    \<and> (fst (client queue ''changeDelay'' (changeDelayArgs queue jobId d) s) = IntReply code
        \<longrightarrow> fst (changeDelay queue jobId d s) = Inl UndefinedValue)"
  using assms
  by (simp add: finishedErrors_def moveToFinished_def moveToDelayed_def changeDelay_def Let_def)

text \<open>The three wrappers on a script that replies -5.\<close>

theorem unknown_negative_codes_witness:
  "finishedErrors (IntReply (- 5)) ''7'' ''finished'' ''active'' = UndefinedValue
   \<and> fst (moveToFinished (exampleQueue (replying (IntReply (- 5)))) exampleJob (Str ''done'')
            ''returnvalue'' (Bool True) ''completed'' ''tok'' True 1000 ()) = Inl UndefinedValue
   \<and> fst (moveToDelayed (exampleQueue (replying (IntReply (- 5)))) ''7'' (Some 2000) ())
       = Inl UndefinedValue
   \<and> fst (changeDelay (exampleQueue (replying (IntReply (- 5)))) ''7'' 2000 ())
       = Inl UndefinedValue"
  using unknown_negative_codes [of "- 5" "''7''" "''finished''" "''active''"
      "exampleQueue (replying (IntReply (- 5)))" exampleJob "Str ''done''" "''returnvalue''"
      "Bool True" "''completed''" "''tok''" True 1000 "()" "Some 2000" 2000]
  by (simp add: replying_def)

section \<open>Finishing a job: result codes\<close>

text \<open>
  C2, as the code has it. When the script of \<^verbatim>\<open>moveToFinished\<close> replies -1, -2, -3 or -4, the
  wrapper throws an \<^verbatim>\<open>Error\<close> whose message names the missing job key, the missing lock, the
  job not being in the active state, or the pending dependencies. When the script replies 0
  or nothing, the wrapper returns without a value and does not throw; when it replies a job
  (field list and id), the wrapper returns the decoded job and does not throw.
\<close>

theorem moveToFinished_outcomes:
  assumes "fst (client queue ''moveToFinished''
             (moveToFinishedArgs queue job val propVal shouldRemove target token fetchNext now) s)
           = r"
  shows "(r = IntReply (- 1) \<longrightarrow>
            fst (moveToFinished queue job val propVal shouldRemove target token fetchNext now s)
            = Inl (Error (''Missing key for job '' @ job_id job @ ''. finished'')))
    \<and> (r = IntReply (- 2) \<longrightarrow>
            fst (moveToFinished queue job val propVal shouldRemove target token fetchNext now s)
            = Inl (Error (''Missing lock for job '' @ job_id job @ ''. finished'')))
    \<and> (r = IntReply (- 3) \<longrightarrow>
            fst (moveToFinished queue job val propVal shouldRemove target token fetchNext now s)
            = Inl (Error (''Job '' @ job_id job @ '' is not in the active state. finished'')))
    \<and> (r = IntReply (- 4) \<longrightarrow>
            fst (moveToFinished queue job val propVal shouldRemove target token fetchNext now s)
            = Inl (Error (''Job '' @ job_id job @ '' has pending dependencies. finished'')))
    \<and> (r = IntReply 0 \<or> r = NilReply \<longrightarrow>
            fst (moveToFinished queue job val propVal shouldRemove target token fetchNext now s)
            = Inr None)
    \<and> (\<forall>flds jid. r = JobReply flds jid \<longrightarrow>
            fst (moveToFinished queue job val propVal shouldRemove target token fetchNext now s)
            = Inr (Some (if flds = [] then NoJob else JobTuple (array2obj flds) jid)))"
  using assms
  by (auto simp add: moveToFinished_def finishedErrors_def raw2jobData_def Let_def)

text \<open>One run per reply: the four error codes, 0, and a job.\<close>

theorem moveToFinished_outcomes_witness:
  "fst (moveToFinished (exampleQueue (replying (IntReply (- 1)))) exampleJob (Str ''done'')
          ''returnvalue'' (Bool True) ''completed'' ''tok'' True 1000 ())
     = Inl (Error ''Missing key for job 7. finished'')
   \<and> fst (moveToFinished (exampleQueue (replying (IntReply (- 2)))) exampleJob (Str ''done'')
          ''returnvalue'' (Bool True) ''completed'' ''tok'' True 1000 ())
     = Inl (Error ''Missing lock for job 7. finished'')
   \<and> fst (moveToFinished (exampleQueue (replying (IntReply (- 3)))) exampleJob (Str ''done'')
          ''returnvalue'' (Bool True) ''completed'' ''tok'' True 1000 ())
     = Inl (Error ''Job 7 is not in the active state. finished'')
   \<and> fst (moveToFinished (exampleQueue (replying (IntReply (- 4)))) exampleJob (Str ''done'')
          ''returnvalue'' (Bool True) ''completed'' ''tok'' True 1000 ())
     = Inl (Error ''Job 7 has pending dependencies. finished'')
   \<and> fst (moveToFinished (exampleQueue (replying (IntReply 0))) exampleJob (Str ''done'')
          ''returnvalue'' (Bool True) ''completed'' ''tok'' True 1000 ())
     = Inr None
   \<and> fst (moveToFinished (exampleQueue (replying (JobReply [''name'', ''n''] ''8''))) exampleJob
          (Str ''done'') ''returnvalue'' (Bool True) ''completed'' ''tok'' True 1000 ())
     = Inr (Some (JobTuple (array2obj [''name'', ''n'']) ''8''))"
proof -
  note w = moveToFinished_outcomes [of _ exampleJob "Str ''done''" "''returnvalue''" "Bool True"
      "''completed''" "''tok''" True 1000 "()", OF refl]
  show ?thesis
    using w [of "exampleQueue (replying (IntReply (- 1)))"]
      w [of "exampleQueue (replying (IntReply (- 2)))"]
      w [of "exampleQueue (replying (IntReply (- 3)))"]
      w [of "exampleQueue (replying (IntReply (- 4)))"]
      w [of "exampleQueue (replying (IntReply 0))"]
      w [of "exampleQueue (replying (JobReply [''name'', ''n''] ''8''))"]
    by (simp add: replying_def exampleJob_def)
qed

text \<open>
  A reply of 1 is not negative, and the wrapper throws on it: the reply is truthy, so it is
  handed to \<^verbatim>\<open>raw2jobData\<close>, where \<^verbatim>\<open>raw[0]\<close> is \<^verbatim>\<open>undefined\<close> and reading its length raises.
\<close>

theorem moveToFinished_reply_one:
  "fst (moveToFinished (exampleQueue (replying (IntReply 1))) exampleJob (Str ''done'')
          ''returnvalue'' (Bool True) ''completed'' ''tok'' True 1000 ()) = Inl TypeError"
  by (simp add: moveToFinished_def raw2jobData_def replying_def Let_def)

text \<open>The same holds for every positive integer reply.\<close>

lemma moveToFinished_positive_code:
  assumes "fst (client queue ''moveToFinished''
             (moveToFinishedArgs queue job val propVal shouldRemove target token fetchNext now) s)
           = IntReply n" and "0 < n"
  shows "fst (moveToFinished queue job val propVal shouldRemove target token fetchNext now s)
           = Inl TypeError"
  using assms
  by (simp add: moveToFinished_def raw2jobData_def Let_def)

section \<open>Finishing a job: the fetch-next flag\<close>

lemma moveToFinished_state:
  "snd (moveToFinished queue job val propVal shouldRemove target token fetchNext now s) =
     snd (client queue ''moveToFinished''
            (moveToFinishedArgs queue job val propVal shouldRemove target token fetchNext now) s)"
  by (simp add: moveToFinished_def Let_def split: sum.splits)

text \<open>
  C4. The flag that asks the script to fetch the next job inline is the sixteenth element of
  the argument array. It is 1 if and only if \<^verbatim>\<open>fetchNext\<close> is true, the queue is not closing
  and the options hold no rate limiter, and 0 otherwise; the wrapper runs the script on
  exactly this array.
\<close>

theorem fetchNext_flag:
  "moveToFinishedArgs queue job val propVal shouldRemove target token fetchNext now ! 15 =
     Num (if fetchNext \<and> \<not> closing queue \<and> limiter (opts queue) = None then 1 else 0)
   \<and> length (moveToFinishedArgs queue job val propVal shouldRemove target token fetchNext now)
       = 21
   \<and> snd (moveToFinished queue job val propVal shouldRemove target token fetchNext now s) =
       snd (client queue ''moveToFinished''
              (moveToFinishedArgs queue job val propVal shouldRemove target token fetchNext now) s)"
proof -
  have flag:
    "moveToFinishedArgs queue job val propVal shouldRemove target token fetchNext now ! 15 =
       Num (if fetchNext \<and> \<not> closing queue \<and> limiter (opts queue) = None then 1 else 0)"
    by (simp add: moveToFinishedArgs_def Let_def)
  have len:
    "length (moveToFinishedArgs queue job val propVal shouldRemove target token fetchNext now)
       = 21"
    by (simp add: moveToFinishedArgs_def Let_def)
  show ?thesis
    by (rule conjI [OF flag conjI [OF len moveToFinished_state]])
qed

text \<open>
  The flag for \<^verbatim>\<open>fetchNext\<close> true and false on the plain queue, then with a limiter, then
  with the queue closing.
\<close>

theorem fetchNext_flag_witness:
  "moveToFinishedArgs (exampleQueue (replying NilReply)) exampleJob (Str ''done'')
      ''returnvalue'' (Bool True) ''completed'' ''tok'' True 1000 ! 15 = Num 1
   \<and> moveToFinishedArgs (exampleQueue (replying NilReply)) exampleJob (Str ''done'')
      ''returnvalue'' (Bool True) ''completed'' ''tok'' False 1000 ! 15 = Num 0
   \<and> moveToFinishedArgs
        (exampleQueue (replying NilReply)\<lparr>opts := \<lparr>lockDuration = Some 30000,
           limiter = Some \<lparr>limiterMax = 10, limiterDuration = 1000, groupKey = None\<rparr>\<rparr>\<rparr>)
        exampleJob (Str ''done'') ''returnvalue'' (Bool True) ''completed'' ''tok'' True 1000 ! 15
       = Num 0
   \<and> moveToFinishedArgs (exampleQueue (replying NilReply)\<lparr>closing := True\<rparr>) exampleJob
        (Str ''done'') ''returnvalue'' (Bool True) ''completed'' ''tok'' True 1000 ! 15 = Num 0"
  using fetchNext_flag [of "exampleQueue (replying NilReply)" exampleJob "Str ''done''"
      "''returnvalue''" "Bool True" "''completed''" "''tok''" True 1000 "()"]
    fetchNext_flag [of "exampleQueue (replying NilReply)" exampleJob "Str ''done''"
      "''returnvalue''" "Bool True" "''completed''" "''tok''" False 1000 "()"]
    fetchNext_flag [of "exampleQueue (replying NilReply)\<lparr>opts := \<lparr>lockDuration = Some 30000,
           limiter = Some \<lparr>limiterMax = 10, limiterDuration = 1000, groupKey = None\<rparr>\<rparr>\<rparr>"
      exampleJob "Str ''done''" "''returnvalue''" "Bool True" "''completed''" "''tok''" True 1000
      "()"]
    fetchNext_flag [of "exampleQueue (replying NilReply)\<lparr>closing := True\<rparr>" exampleJob
      "Str ''done''" "''returnvalue''" "Bool True" "''completed''" "''tok''" True 1000 "()"]
  by (simp add: exampleQueue_def queueOf_def)

section \<open>Fetching the next job: decoding the reply\<close>

text \<open>
  A flat array of name and value pairs with distinct names becomes the object that holds
  each value under its name (the name \<^verbatim>\<open>__proto__\<close> apart).
\<close>

lemma array2obj_from_pairs:
  "array2obj_from obj (concat (map (\<lambda>p. [fst p, snd p]) ps)) =
     foldl (\<lambda>acc p. setProp acc (fst p) (Str (snd p))) obj ps"
  by (induction ps arbitrary: obj) simp_all

lemma foldl_setProp_other:
  "k \<notin> fst ` set ps \<Longrightarrow>
     foldl (\<lambda>acc p. setProp acc (fst p) (Str (snd p))) obj ps k = obj k"
  by (induction ps arbitrary: obj) (auto simp add: setProp_def)

lemma foldl_setProp_lookup:
  "distinct (map fst ps) \<Longrightarrow> (k, v) \<in> set ps \<Longrightarrow> k \<noteq> ''__proto__'' \<Longrightarrow>
     foldl (\<lambda>acc p. setProp acc (fst p) (Str (snd p))) obj ps k = Some (Str v)"
proof (induction ps arbitrary: obj)
  case Nil
  then show ?case by simp
next
  case (Cons p ps)
  show ?case
  proof (cases "p = (k, v)")
    case True
    with Cons.prems have "k \<notin> fst ` set ps" by auto
    then have "foldl (\<lambda>acc p. setProp acc (fst p) (Str (snd p)))
                 (setProp obj k (Str v)) ps k = setProp obj k (Str v) k"
      by (rule foldl_setProp_other)
    with True Cons.prems show ?thesis
      by (simp add: setProp_def)
  next
    case False
    with Cons.prems have "(k, v) \<in> set ps" and "distinct (map fst ps)" by auto
    with Cons.IH Cons.prems show ?thesis by simp
  qed
qed

lemma foldl_setProp_dom:
  "dom (foldl (\<lambda>acc p. setProp acc (fst p) (Str (snd p))) obj ps) =
     dom obj \<union> (fst ` set ps - {''__proto__''})"
  by (induction ps arbitrary: obj) (auto simp add: setProp_def)

lemma array2obj_pairs:
  assumes "distinct (map fst ps)"
  shows "dom (array2obj (concat (map (\<lambda>p. [fst p, snd p]) ps))) = fst ` set ps - {''__proto__''}"
    and "(k, v) \<in> set ps \<Longrightarrow> k \<noteq> ''__proto__'' \<Longrightarrow>
           array2obj (concat (map (\<lambda>p. [fst p, snd p]) ps)) k = Some (Str v)"
  using assms
  by (simp_all add: array2obj_def array2obj_from_pairs foldl_setProp_dom foldl_setProp_lookup)

text \<open>
  C5. \<^verbatim>\<open>moveToActive\<close> returns a numeric reply \<open>n\<close> (the delay of the rate limiter) as the pair
  of \<open>n\<close> and \<^verbatim>\<open>undefined\<close>. Any other reply is decoded: a job reply with a non-empty field
  array becomes the pair of the object built from the array and the job id, where the
  object pairs each name of the flat array with the value that follows it; an empty field
  array, and no reply at all, decode to the empty result.
\<close>

theorem moveToActive_decoding:
  assumes "fst (client worker ''moveToActive'' (moveToActiveArgs worker token jobId now) s) = r"
  shows "(\<forall>n. r = IntReply n \<longrightarrow>
            fst (moveToActive worker token jobId now s) = Inr (DelayUntil n))
    \<and> (\<forall>flds jid. r = JobReply flds jid \<and> flds \<noteq> [] \<longrightarrow>
            fst (moveToActive worker token jobId now s)
              = Inr (Fetched (JobTuple (array2obj flds) jid)))
    \<and> (\<forall>jid. r = JobReply [] jid \<longrightarrow>
            fst (moveToActive worker token jobId now s) = Inr (Fetched NoJob))
    \<and> (r = NilReply \<longrightarrow> fst (moveToActive worker token jobId now s) = Inr (Fetched NoJob))
    \<and> (\<forall>ps k v. distinct (map fst ps) \<and> (k, v) \<in> set ps \<and> k \<noteq> ''__proto__'' \<longrightarrow>
            array2obj (concat (map (\<lambda>p. [fst p, snd p]) ps)) k = Some (Str v))
    \<and> (\<forall>ps. distinct (map fst ps) \<longrightarrow>
            dom (array2obj (concat (map (\<lambda>p. [fst p, snd p]) ps)))
              = fst ` set ps - {''__proto__''})"
proof -
  have decode: "(\<forall>n. r = IntReply n \<longrightarrow>
            fst (moveToActive worker token jobId now s) = Inr (DelayUntil n))
    \<and> (\<forall>flds jid. r = JobReply flds jid \<and> flds \<noteq> [] \<longrightarrow>
            fst (moveToActive worker token jobId now s)
              = Inr (Fetched (JobTuple (array2obj flds) jid)))
    \<and> (\<forall>jid. r = JobReply [] jid \<longrightarrow>
            fst (moveToActive worker token jobId now s) = Inr (Fetched NoJob))
    \<and> (r = NilReply \<longrightarrow> fst (moveToActive worker token jobId now s) = Inr (Fetched NoJob))"
    using assms by (auto simp add: moveToActive_def raw2jobData_def Let_def)
  with array2obj_pairs show ?thesis
    by simp
qed

text \<open>A delay of 250, a job with two fields, an empty field array, and no reply.\<close>

theorem moveToActive_decoding_witness:
  "fst (moveToActive (exampleQueue (replying (IntReply 250))) ''tok'' None 1000 ())
     = Inr (DelayUntil 250)
   \<and> (\<exists>obj. fst (moveToActive
                (exampleQueue (replying (JobReply [''name'', ''mail'', ''data'', ''{}''] ''8'')))
                ''tok'' None 1000 ()) = Inr (Fetched (JobTuple obj ''8''))
           \<and> obj ''name'' = Some (Str ''mail'') \<and> obj ''data'' = Some (Str ''{}'')
           \<and> dom obj = {''name'', ''data''})
   \<and> fst (moveToActive (exampleQueue (replying (JobReply [] ''8''))) ''tok'' None 1000 ())
     = Inr (Fetched NoJob)
   \<and> fst (moveToActive (exampleQueue (replying NilReply)) ''tok'' None 1000 ())
     = Inr (Fetched NoJob)"
proof -
  note w = moveToActive_decoding [of _ "''tok''" None 1000 "()", OF refl]
  have a: "fst (moveToActive (exampleQueue (replying (IntReply 250))) ''tok'' None 1000 ())
     = Inr (DelayUntil 250)"
    using w [of "exampleQueue (replying (IntReply 250))"] by (simp add: replying_def)
  have b: "fst (moveToActive
                (exampleQueue (replying (JobReply [''name'', ''mail'', ''data'', ''{}''] ''8'')))
                ''tok'' None 1000 ())
            = Inr (Fetched (JobTuple (array2obj [''name'', ''mail'', ''data'', ''{}'']) ''8''))"
    using w [of "exampleQueue (replying (JobReply [''name'', ''mail'', ''data'', ''{}''] ''8''))"]
    by (simp add: replying_def)
  have c: "fst (moveToActive (exampleQueue (replying (JobReply [] ''8''))) ''tok'' None 1000 ())
     = Inr (Fetched NoJob)"
    using w [of "exampleQueue (replying (JobReply [] ''8''))"] by (simp add: replying_def)
  have d: "fst (moveToActive (exampleQueue (replying NilReply)) ''tok'' None 1000 ())
     = Inr (Fetched NoJob)"
    using w [of "exampleQueue (replying NilReply)"] by (simp add: replying_def)
  have o1: "array2obj [''name'', ''mail'', ''data'', ''{}''] ''name'' = Some (Str ''mail'')"
    by (simp add: array2obj_def setProp_def)
  have o2: "array2obj [''name'', ''mail'', ''data'', ''{}''] ''data'' = Some (Str ''{}'')"
    by (simp add: array2obj_def setProp_def)
  have o3: "dom (array2obj [''name'', ''mail'', ''data'', ''{}'']) = {''name'', ''data''}"
    by (auto simp add: array2obj_def setProp_def)
  from a b c d o1 o2 o3 show ?thesis
    by simp
qed

section \<open>Adding a job: push command and priority\<close>

text \<open>
  C7. For every job (so also for one without delay and without a parent key) \<^verbatim>\<open>addJob\<close>
  passes the script the push command \<^verbatim>\<open>RPUSH\<close> when \<^verbatim>\<open>opts.lifo\<close> is true and \<^verbatim>\<open>LPUSH\<close>
  otherwise, and the priority \<^verbatim>\<open>opts.priority\<close>, 0 when there is none.
\<close>

theorem addJob_push_command:
  "addJobKeys queue job jopts jobId parentOpts ! 17 =
     Str (if lifo jopts = Some True then ''RPUSH'' else ''LPUSH'')
   \<and> addJobKeys queue job jopts jobId parentOpts ! 16 =
     Num (case priority jopts of None \<Rightarrow> 0 | Some p \<Rightarrow> p)
   \<and> addJob client' queue job jopts jobId parentOpts s =
     client' ''addJob'' (addJobKeys queue job jopts jobId parentOpts) s"
proof -
  have push: "addJobKeys queue job jopts jobId parentOpts ! 17 =
     Str (if lifo jopts = Some True then ''RPUSH'' else ''LPUSH'')"
    by (simp add: addJobKeys_def Let_def)
  have prio: "addJobKeys queue job jopts jobId parentOpts ! 16 =
     Num (case priority jopts of None \<Rightarrow> 0 | Some p \<Rightarrow> p)"
    by (simp add: addJobKeys_def Let_def optNum_def split: option.splits)
  have call: "addJob client' queue job jopts jobId parentOpts s =
     client' ''addJob'' (addJobKeys queue job jopts jobId parentOpts) s"
    by (simp add: addJob_def)
  show ?thesis
    by (rule conjI [OF push conjI [OF prio call]])
qed

text \<open>A LIFO job of priority 3, and a job with no options set.\<close>

theorem addJob_push_command_witness:
  "addJobKeys (exampleQueue (replying NilReply))
      \<lparr>json_name = ''mail'', json_data = Str ''{}'', json_opts = Str ''{}'', json_timestamp = 1000\<rparr>
      \<lparr>delay = None, priority = Some 3, lifo = Some True, jobId_opt = None, parent = None\<rparr>
      None None ! 17 = Str ''RPUSH''
   \<and> addJobKeys (exampleQueue (replying NilReply))
      \<lparr>json_name = ''mail'', json_data = Str ''{}'', json_opts = Str ''{}'', json_timestamp = 1000\<rparr>
      \<lparr>delay = None, priority = Some 3, lifo = Some True, jobId_opt = None, parent = None\<rparr>
      None None ! 16 = Num 3
   \<and> addJobKeys (exampleQueue (replying NilReply))
      \<lparr>json_name = ''mail'', json_data = Str ''{}'', json_opts = Str ''{}'', json_timestamp = 1000\<rparr>
      \<lparr>delay = None, priority = None, lifo = None, jobId_opt = None, parent = None\<rparr>
      None None ! 17 = Str ''LPUSH''
   \<and> addJobKeys (exampleQueue (replying NilReply))
      \<lparr>json_name = ''mail'', json_data = Str ''{}'', json_opts = Str ''{}'', json_timestamp = 1000\<rparr>
      \<lparr>delay = None, priority = None, lifo = None, jobId_opt = None, parent = None\<rparr>
      None None ! 16 = Num 0"
  using addJob_push_command [of "exampleQueue (replying NilReply)"
      "\<lparr>json_name = ''mail'', json_data = Str ''{}'', json_opts = Str ''{}'',
        json_timestamp = 1000\<rparr>"
      "\<lparr>delay = None, priority = Some 3, lifo = Some True, jobId_opt = None, parent = None\<rparr>"
      None None]
    addJob_push_command [of "exampleQueue (replying NilReply)"
      "\<lparr>json_name = ''mail'', json_data = Str ''{}'', json_opts = Str ''{}'',
        json_timestamp = 1000\<rparr>"
      "\<lparr>delay = None, priority = None, lifo = None, jobId_opt = None, parent = None\<rparr>"
      None None]
  by simp

section \<open>Group ids\<close>

text \<open>
  C8. \<^verbatim>\<open>jobIdForGroup\<close> chooses the id under which \<^verbatim>\<open>add\<close> and \<^verbatim>\<open>addBulk\<close> create a job, for
  every resolver of paths and every payload. When the queue's limiter has a group key path
  and the path resolves in the payload to a value other than \<^verbatim>\<open>undefined\<close>, the id is the
  caller's id, or the fresh identifier when the caller gave none (or gave the empty string),
  followed by a colon and the group value as a string; where the conversion of the value to
  a string raises, \<^verbatim>\<open>jobIdForGroup\<close> raises the same. When no path is configured, or the path
  resolves to \<^verbatim>\<open>undefined\<close>, the id is the caller's, unchanged.
\<close>

theorem group_job_id:
  "(let supplied = (case jopts of None \<Rightarrow> None | Some given \<Rightarrow> jobId_opt given);
        path = (case limiter_q queue of None \<Rightarrow> None | Some l \<Rightarrow> queueGroupKey l);
        group = lodashGet data' path
    in (\<forall>g text. path \<noteq> None \<and> path \<noteq> Some [] \<and> group = Some g
                  \<and> toString' g = Inr text \<longrightarrow>
          jobIdForGroup lodashGet toString' queue jopts data' v4 =
            Inr (Some ((case supplied of
                          None \<Rightarrow> v4
                        | Some given \<Rightarrow> if given = [] then v4 else given)
                       @ '':'' @ text)))
       \<and> (\<forall>g e. path \<noteq> None \<and> path \<noteq> Some [] \<and> group = Some g
                \<and> toString' g = Inl e \<longrightarrow>
          jobIdForGroup lodashGet toString' queue jopts data' v4 = Inl e)
       \<and> (path = None \<or> path = Some [] \<or> group = None \<longrightarrow>
          jobIdForGroup lodashGet toString' queue jopts data' v4 = Inr supplied))"
  by (auto simp add: jobIdForGroup_def Let_def optStr_def split: option.splits bool.splits)

text \<open>
  The path \<^verbatim>\<open>user.id\<close> on a payload whose user has id 42, with and without a caller's id;
  a path that the payload does not have; a queue without a path; and a path to a symbol.
\<close>

theorem group_job_id_witness:
  "jobIdForGroup exampleGet exampleToString (groupQueue (Some ''user.id''))
      (Some \<lparr>delay = None, priority = None, lifo = None, jobId_opt = Some ''abc'', parent = None\<rparr>)
      examplePayload ''uuid-1'' = Inr (Some ''abc:42'')
   \<and> jobIdForGroup exampleGet exampleToString (groupQueue (Some ''user.id'')) None
      examplePayload ''uuid-1'' = Inr (Some ''uuid-1:42'')
   \<and> jobIdForGroup exampleGet exampleToString (groupQueue (Some ''user.age''))
      (Some \<lparr>delay = None, priority = None, lifo = None, jobId_opt = Some ''abc'', parent = None\<rparr>)
      examplePayload ''uuid-1'' = Inr (Some ''abc'')
   \<and> jobIdForGroup exampleGet exampleToString (groupQueue None)
      (Some \<lparr>delay = None, priority = None, lifo = None, jobId_opt = Some ''abc'', parent = None\<rparr>)
      examplePayload ''uuid-1'' = Inr (Some ''abc'')
   \<and> jobIdForGroup exampleGet exampleToString (groupQueue (Some ''user.tag''))
      (Some \<lparr>delay = None, priority = None, lifo = None, jobId_opt = Some ''abc'', parent = None\<rparr>)
      examplePayload ''uuid-1'' = Inl TypeError"
proof -
  have g: "exampleGet examplePayload (Some ''user.id'') = Some (NumberValue 42)"
    "exampleGet examplePayload (Some ''user.age'') = None"
    "exampleGet examplePayload (Some ''user.tag'') = Some SymbolValue"
    "exampleGet examplePayload None = None"
    by (simp_all add: exampleGet_def examplePayload_def)
  have s: "exampleToString (NumberValue 42) = Inr ''42''"
    "exampleToString SymbolValue = Inl TypeError"
    by (simp_all add: exampleToString_def numberToString_def doubleDigits_def flInt_def
        showDigits.simps)
  have l: "limiter_q (groupQueue p) = Some \<lparr>queueGroupKey = p\<rparr>" for p
    by (simp add: groupQueue_def Let_def)
  show ?thesis
    using group_job_id [of "Some \<lparr>delay = None, priority = None, lifo = None,
          jobId_opt = Some ''abc'', parent = None\<rparr>" "groupQueue (Some ''user.id'')"
        exampleGet examplePayload exampleToString "''uuid-1''"]
      group_job_id [of None "groupQueue (Some ''user.id'')"
        exampleGet examplePayload exampleToString "''uuid-1''"]
      group_job_id [of "Some \<lparr>delay = None, priority = None, lifo = None,
          jobId_opt = Some ''abc'', parent = None\<rparr>" "groupQueue (Some ''user.age'')"
        exampleGet examplePayload exampleToString "''uuid-1''"]
      group_job_id [of "Some \<lparr>delay = None, priority = None, lifo = None,
          jobId_opt = Some ''abc'', parent = None\<rparr>" "groupQueue None"
        exampleGet examplePayload exampleToString "''uuid-1''"]
      group_job_id [of "Some \<lparr>delay = None, priority = None, lifo = None,
          jobId_opt = Some ''abc'', parent = None\<rparr>" "groupQueue (Some ''user.tag'')"
        exampleGet examplePayload exampleToString "''uuid-1''"]
    by (simp add: l g s Let_def)
qed

section \<open>Obliterating a queue\<close>

lemma Scripts_obliterate_eq:
  "Scripts_obliterate queue oopts s =
     ((if obliterateCursor queue oopts s = IntReply (- 1) then
         Inl (Error ''Cannot obliterate non-paused queue'')
       else if obliterateCursor queue oopts s = IntReply (- 2) then
         Inl (Error ''Cannot obliterate queue with active jobs'')
       else Inr (obliterateCursor queue oopts s)),
      obliterateRound queue oopts s)"
  by (simp add: Scripts_obliterate_def obliterateCursor_def obliterateRound_def Let_def)

lemma obliterate_loop_unfold:
  "obliterate_loop queue oopts s =
     (if obliterateCursor queue oopts s = IntReply (- 1) then
        Some (Inl (Error ''Cannot obliterate non-paused queue''), obliterateRound queue oopts s)
      else if obliterateCursor queue oopts s = IntReply (- 2) then
        Some (Inl (Error ''Cannot obliterate queue with active jobs''),
              obliterateRound queue oopts s)
      else if replyTruthy (obliterateCursor queue oopts s) then
        obliterate_loop queue oopts (obliterateRound queue oopts s)
      else Some (Inr (), obliterateRound queue oopts s))"
  by (subst obliterate_loop.simps) (simp add: Scripts_obliterate_eq)

text \<open>The loop passes over every round whose cursor continues, and leaves at the first that does not.\<close>

lemma obliterate_loop_skip:
  assumes "\<forall>k<n. cursorContinues (obliterateCursor queue oopts (obliterateRounds queue oopts k s))"
  shows "obliterate_loop queue oopts s
           = obliterate_loop queue oopts (obliterateRounds queue oopts n s)"
  using assms
proof (induction n arbitrary: s)
  case 0
  show ?case by simp
next
  case (Suc n)
  from Suc.prems have first: "cursorContinues (obliterateCursor queue oopts s)"
    by (metis obliterateRounds.simps(1) zero_less_Suc)
  have rest: "\<forall>k<n. cursorContinues
      (obliterateCursor queue oopts
         (obliterateRounds queue oopts k (obliterateRound queue oopts s)))"
  proof (intro allI impI)
    fix k assume "k < n"
    then have "Suc k < Suc n" by simp
    with Suc.prems show "cursorContinues
      (obliterateCursor queue oopts
         (obliterateRounds queue oopts k (obliterateRound queue oopts s)))"
      by (metis obliterateRounds.simps(2))
  qed
  from first have "obliterate_loop queue oopts s
      = obliterate_loop queue oopts (obliterateRound queue oopts s)"
    by (subst obliterate_loop_unfold) (simp add: cursorContinues_def)
  also have "\<dots> = obliterate_loop queue oopts
      (obliterateRounds queue oopts n (obliterateRound queue oopts s))"
    by (rule Suc.IH [OF rest])
  finally show ?case by simp
qed

lemma obliterateRounds_Suc:
  "obliterateRounds queue oopts (Suc n) s
     = obliterateRound queue oopts (obliterateRounds queue oopts n s)"
  by (induction n arbitrary: s) simp_all

lemma obliterate_loop_stop:
  assumes "\<not> cursorContinues (obliterateCursor queue oopts s)"
  shows "obliterate_loop queue oopts s
           = Some (loopExit (obliterateCursor queue oopts s), obliterateRound queue oopts s)"
  using assms
  by (subst obliterate_loop_unfold) (auto simp add: cursorContinues_def loopExit_def)

lemma obliterate_loop_steps:
  assumes "\<forall>k<n. cursorContinues (obliterateCursor queue oopts (obliterateRounds queue oopts k s))"
    and "\<not> cursorContinues (obliterateCursor queue oopts (obliterateRounds queue oopts n s))"
  shows "obliterate_loop queue oopts s
           = Some (loopExit (obliterateCursor queue oopts (obliterateRounds queue oopts n s)),
                   obliterateRounds queue oopts (Suc n) s)"
proof -
  have "obliterate_loop queue oopts s
          = obliterate_loop queue oopts (obliterateRounds queue oopts n s)"
    by (rule obliterate_loop_skip [OF assms(1)])
  also have "\<dots> = Some (loopExit (obliterateCursor queue oopts (obliterateRounds queue oopts n s)),
                        obliterateRound queue oopts (obliterateRounds queue oopts n s))"
    by (rule obliterate_loop_stop [OF assms(2)])
  finally show ?thesis
    by (simp only: obliterateRounds_Suc)
qed

text \<open>Conversely, a run of the loop that returns has left at such a round.\<close>

lemma loop_body_stop:
  assumes "\<not> cursorContinues (obliterateCursor queue oopts s)"
  shows "(let r = Scripts_obliterate queue oopts s
          in case fst r of
               Inl e \<Rightarrow> Some (Inl e, snd r)
             | Inr cursor \<Rightarrow>
                 if replyTruthy cursor then loop queue oopts (snd r)
                 else Some (Inr (), snd r))
         = Some (loopExit (obliterateCursor queue oopts s), obliterateRound queue oopts s)"
  using assms
  by (auto simp add: Scripts_obliterate_eq Let_def cursorContinues_def loopExit_def)

lemma loop_body_go:
  assumes "cursorContinues (obliterateCursor queue oopts s)"
  shows "(let r = Scripts_obliterate queue oopts s
          in case fst r of
               Inl e \<Rightarrow> Some (Inl e, snd r)
             | Inr cursor \<Rightarrow>
                 if replyTruthy cursor then loop queue oopts (snd r)
                 else Some (Inr (), snd r))
         = loop queue oopts (obliterateRound queue oopts s)"
  using assms
  by (auto simp add: Scripts_obliterate_eq Let_def cursorContinues_def)

lemma obliterate_loop_returns:
  assumes "obliterate_loop queue oopts s = Some y"
  shows "\<exists>n. (\<forall>k<n. cursorContinues
                  (obliterateCursor queue oopts (obliterateRounds queue oopts k s)))
            \<and> \<not> cursorContinues
                  (obliterateCursor queue oopts (obliterateRounds queue oopts n s))
            \<and> y = (loopExit (obliterateCursor queue oopts (obliterateRounds queue oopts n s)),
                    obliterateRounds queue oopts (Suc n) s)"
proof (rule obliterate_loop.raw_induct
    [where P = "\<lambda>queue oopts s y.
        \<exists>n. (\<forall>k<n. cursorContinues
                  (obliterateCursor queue oopts (obliterateRounds queue oopts k s)))
            \<and> \<not> cursorContinues
                  (obliterateCursor queue oopts (obliterateRounds queue oopts n s))
            \<and> y = (loopExit (obliterateCursor queue oopts (obliterateRounds queue oopts n s)),
                    obliterateRounds queue oopts (Suc n) s)", OF _ assms])
  fix loop :: "('a, 'b) MinimalQueue_scheme \<Rightarrow> ObliterateOpts \<Rightarrow> 'a
                 \<Rightarrow> ((errval + unit) \<times> 'a) option"
    and queue :: "('a, 'b) MinimalQueue_scheme" and oopts s y
  assume IH: "\<And>queue oopts s y. loop queue oopts s = Some y \<Longrightarrow>
        \<exists>n. (\<forall>k<n. cursorContinues
                  (obliterateCursor queue oopts (obliterateRounds queue oopts k s)))
            \<and> \<not> cursorContinues
                  (obliterateCursor queue oopts (obliterateRounds queue oopts n s))
            \<and> y = (loopExit (obliterateCursor queue oopts (obliterateRounds queue oopts n s)),
                    obliterateRounds queue oopts (Suc n) s)"
    and body: "(let r = Scripts_obliterate queue oopts s
          in case fst r of
               Inl e \<Rightarrow> Some (Inl e, snd r)
             | Inr cursor \<Rightarrow>
                 if replyTruthy cursor then loop queue oopts (snd r)
                 else Some (Inr (), snd r)) = Some y"
  show "\<exists>n. (\<forall>k<n. cursorContinues
                  (obliterateCursor queue oopts (obliterateRounds queue oopts k s)))
            \<and> \<not> cursorContinues
                  (obliterateCursor queue oopts (obliterateRounds queue oopts n s))
            \<and> y = (loopExit (obliterateCursor queue oopts (obliterateRounds queue oopts n s)),
                    obliterateRounds queue oopts (Suc n) s)"
  proof (cases "cursorContinues (obliterateCursor queue oopts s)")
    case False
    from body have "Some (loopExit (obliterateCursor queue oopts s),
                          obliterateRound queue oopts s) = Some y"
      by (simp only: loop_body_stop [OF False])
    then have y: "y = (loopExit (obliterateCursor queue oopts s), obliterateRound queue oopts s)"
      by simp
    show ?thesis
    proof (rule exI [of _ 0], intro conjI)
      show "\<forall>k<0. cursorContinues
              (obliterateCursor queue oopts (obliterateRounds queue oopts k s))"
        by simp
      show "\<not> cursorContinues (obliterateCursor queue oopts (obliterateRounds queue oopts 0 s))"
        using False by simp
      show "y = (loopExit (obliterateCursor queue oopts (obliterateRounds queue oopts 0 s)),
                 obliterateRounds queue oopts (Suc 0) s)"
        using y by simp
    qed
  next
    case True
    from body have "loop queue oopts (obliterateRound queue oopts s) = Some y"
      by (simp only: loop_body_go [OF True])
    from IH [OF this] obtain n where
      n: "(\<forall>k<n. cursorContinues (obliterateCursor queue oopts
             (obliterateRounds queue oopts k (obliterateRound queue oopts s))))
        \<and> \<not> cursorContinues (obliterateCursor queue oopts
             (obliterateRounds queue oopts n (obliterateRound queue oopts s)))
        \<and> y = (loopExit (obliterateCursor queue oopts
                      (obliterateRounds queue oopts n (obliterateRound queue oopts s))),
                    obliterateRounds queue oopts (Suc n) (obliterateRound queue oopts s))"
      ..
    show ?thesis
    proof (rule exI [of _ "Suc n"], intro conjI)
      show "\<forall>k<Suc n. cursorContinues
              (obliterateCursor queue oopts (obliterateRounds queue oopts k s))"
      proof (intro allI impI)
        fix k assume "k < Suc n"
        show "cursorContinues (obliterateCursor queue oopts (obliterateRounds queue oopts k s))"
        proof (cases k)
          case 0
          with True show ?thesis by simp
        next
          case (Suc j)
          with \<open>k < Suc n\<close> have "j < n" by simp
          with n Suc show ?thesis by simp
        qed
      qed
      show "\<not> cursorContinues
              (obliterateCursor queue oopts (obliterateRounds queue oopts (Suc n) s))"
        using n by simp
      show "y = (loopExit (obliterateCursor queue oopts (obliterateRounds queue oopts (Suc n) s)),
                 obliterateRounds queue oopts (Suc (Suc n)) s)"
        using n by simp
    qed
  qed
qed

lemma cursorContinues_int: "cursorContinues (IntReply c) = (c \<noteq> 0 \<and> c \<noteq> - 1 \<and> c \<noteq> - 2)"
  by (simp add: cursorContinues_def)

lemma Scripts_pause_true:
  "Scripts_pause queue True s =
     client queue ''pause''
       [Str (toKey queue ''wait''), Str (toKey queue ''paused''), Str (toKey queue ''meta''),
        keyOf queue ''events'', Str ''paused''] s"
  by (simp add: Scripts_pause_def)

lemma obliterateArgs_defaults:
  "obliterateArgs queue (obliterateDefaults None)
     = [keyOf queue ''meta'', Str (toKey queue []), Num 1000, Null]"
  "obliterateArgs queue (obliterateDefaults (Some \<lparr>force_opt = f, count_opt = c\<rparr>))
     = [keyOf queue ''meta'', Str (toKey queue []),
        (case c of Absent \<Rightarrow> Num 1000 | ExplicitUndefined \<Rightarrow> Undefined | Given n \<Rightarrow> Num n),
        (if f = Given True then Str ''force'' else Null)]"
  by (auto simp add: obliterateArgs_def obliterateDefaults_def optNum_def
      split: property.splits)

text \<open>
  C9. \<^verbatim>\<open>Scripts.obliterate\<close> throws ``Cannot obliterate non-paused queue'' when the script
  returns -1 and ``Cannot obliterate queue with active jobs'' when it returns -2.
  \<^verbatim>\<open>Queue.obliterate\<close> first runs the pause script and tells the listeners, then runs the
  loop on the options with \<^verbatim>\<open>count\<close> 1000 and \<^verbatim>\<open>force\<close> false where the caller's options do
  not have the property (a property that the caller set, also to \<^verbatim>\<open>undefined\<close>, is passed as it
  is: an undefined \<^verbatim>\<open>count\<close> reaches the script as \<^verbatim>\<open>undefined\<close>, an undefined \<^verbatim>\<open>force\<close> as
  no force).
  The loop invokes the script round after round: if the cursors of the first \<open>n\<close> rounds
  continue and the cursor of the next round does not, the loop returns after that round,
  with the error for -1 and -2 and normally otherwise; and a loop that returns has done
  exactly that. An integer cursor continues unless it is 0, -1 or -2, so the loop returns
  normally when the cursor is 0.
\<close>

theorem Queue_obliterate_run:
  "(obliterateCursor queue oopts s = IntReply (- 1) \<longrightarrow>
      fst (Scripts_obliterate queue oopts s) = Inl (Error ''Cannot obliterate non-paused queue''))
   \<and> (obliterateCursor queue oopts s = IntReply (- 2) \<longrightarrow>
      fst (Scripts_obliterate queue oopts s)
        = Inl (Error ''Cannot obliterate queue with active jobs''))
   \<and> Queue_obliterate queue opts' s =
       obliterate_loop queue (obliterateDefaults opts')
         (emit queue ''paused'' (snd (Scripts_pause queue True s)))
   \<and> Scripts_pause queue True s =
       client queue ''pause''
         [Str (toKey queue ''wait''), Str (toKey queue ''paused''), Str (toKey queue ''meta''),
          keyOf queue ''events'', Str ''paused''] s
   \<and> obliterateArgs queue (obliterateDefaults None)
       = [keyOf queue ''meta'', Str (toKey queue []), Num 1000, Null]
   \<and> obliterateArgs queue (obliterateDefaults (Some \<lparr>force_opt = f, count_opt = c\<rparr>))
       = [keyOf queue ''meta'', Str (toKey queue []),
          (case c of Absent \<Rightarrow> Num 1000 | ExplicitUndefined \<Rightarrow> Undefined | Given n \<Rightarrow> Num n),
          (if f = Given True then Str ''force'' else Null)]
   \<and> (\<forall>n. (\<forall>k<n. cursorContinues
                    (obliterateCursor queue oopts (obliterateRounds queue oopts k s)))
            \<and> \<not> cursorContinues
                    (obliterateCursor queue oopts (obliterateRounds queue oopts n s))
          \<longrightarrow> obliterate_loop queue oopts s
                = Some (loopExit (obliterateCursor queue oopts (obliterateRounds queue oopts n s)),
                        obliterateRounds queue oopts (Suc n) s))
   \<and> (\<forall>y. obliterate_loop queue oopts s = Some y \<longrightarrow>
          (\<exists>n. (\<forall>k<n. cursorContinues
                     (obliterateCursor queue oopts (obliterateRounds queue oopts k s)))
              \<and> \<not> cursorContinues
                     (obliterateCursor queue oopts (obliterateRounds queue oopts n s))
              \<and> y = (loopExit (obliterateCursor queue oopts (obliterateRounds queue oopts n s)),
                      obliterateRounds queue oopts (Suc n) s)))
   \<and> (\<forall>i. cursorContinues (IntReply i) = (i \<noteq> 0 \<and> i \<noteq> - 1 \<and> i \<noteq> - 2))
   \<and> loopExit (IntReply 0) = Inr ()"
proof (intro conjI allI impI)
  assume "obliterateCursor queue oopts s = IntReply (- 1)"
  then show "fst (Scripts_obliterate queue oopts s)
               = Inl (Error ''Cannot obliterate non-paused queue'')"
    by (simp add: Scripts_obliterate_eq)
next
  assume "obliterateCursor queue oopts s = IntReply (- 2)"
  then show "fst (Scripts_obliterate queue oopts s)
               = Inl (Error ''Cannot obliterate queue with active jobs'')"
    by (simp add: Scripts_obliterate_eq)
next
  show "Queue_obliterate queue opts' s =
       obliterate_loop queue (obliterateDefaults opts')
         (emit queue ''paused'' (snd (Scripts_pause queue True s)))"
    by (simp add: Queue_obliterate_def Queue_pause_def)
next
  show "Scripts_pause queue True s =
       client queue ''pause''
         [Str (toKey queue ''wait''), Str (toKey queue ''paused''), Str (toKey queue ''meta''),
          keyOf queue ''events'', Str ''paused''] s"
    by (rule Scripts_pause_true)
next
  show "obliterateArgs queue (obliterateDefaults None)
       = [keyOf queue ''meta'', Str (toKey queue []), Num 1000, Null]"
    by (rule obliterateArgs_defaults)
next
  show "obliterateArgs queue (obliterateDefaults (Some \<lparr>force_opt = f, count_opt = c\<rparr>))
       = [keyOf queue ''meta'', Str (toKey queue []),
          (case c of Absent \<Rightarrow> Num 1000 | ExplicitUndefined \<Rightarrow> Undefined | Given n \<Rightarrow> Num n),
          (if f = Given True then Str ''force'' else Null)]"
    by (rule obliterateArgs_defaults)
next
  fix n
  assume "(\<forall>k<n. cursorContinues
                    (obliterateCursor queue oopts (obliterateRounds queue oopts k s)))
            \<and> \<not> cursorContinues
                    (obliterateCursor queue oopts (obliterateRounds queue oopts n s))"
  then show "obliterate_loop queue oopts s
                = Some (loopExit (obliterateCursor queue oopts (obliterateRounds queue oopts n s)),
                        obliterateRounds queue oopts (Suc n) s)"
    by (intro obliterate_loop_steps) simp_all
next
  fix y
  assume "obliterate_loop queue oopts s = Some y"
  then show "\<exists>n. (\<forall>k<n. cursorContinues
                     (obliterateCursor queue oopts (obliterateRounds queue oopts k s)))
              \<and> \<not> cursorContinues
                     (obliterateCursor queue oopts (obliterateRounds queue oopts n s))
              \<and> y = (loopExit (obliterateCursor queue oopts (obliterateRounds queue oopts n s)),
                      obliterateRounds queue oopts (Suc n) s)"
    by (rule obliterate_loop_returns)
next
  fix i
  show "cursorContinues (IntReply i) = (i \<noteq> 0 \<and> i \<noteq> - 1 \<and> i \<noteq> - 2)"
    by (rule cursorContinues_int)
next
  show "loopExit (IntReply 0) = Inr ()"
    by (simp add: loopExit_def)
qed

text \<open>
  On the counter script started at 3 the cursors are 2, 1, 0: the loop returns normally
  after three rounds, with the counter at 0. Without options the script is given the count
  1000 and no force; with \<^verbatim>\<open>{force: true}\<close> the count 1000 and the force; with
  \<^verbatim>\<open>{count: undefined}\<close> the count \<^verbatim>\<open>undefined\<close>.
\<close>

lemma countdown_cursor:
  "obliterateCursor (exampleQueue countdownScript) oopts s = IntReply (int (s - 1))"
  by (simp add: obliterateCursor_def countdownScript_def)

lemma countdown_round:
  "obliterateRound (exampleQueue countdownScript) oopts s = s - 1"
  by (simp add: obliterateRound_def countdownScript_def)

theorem Queue_obliterate_run_witness:
  "Queue_obliterate (exampleQueue countdownScript) None 3 = Some (Inr (), 0)
   \<and> fst (Scripts_obliterate (exampleQueue (replying (IntReply (- 1))))
            \<lparr>force = Some False, count = Some 1000\<rparr> ())
       = Inl (Error ''Cannot obliterate non-paused queue'')
   \<and> fst (Scripts_obliterate (exampleQueue (replying (IntReply (- 2))))
            \<lparr>force = Some False, count = Some 1000\<rparr> ())
       = Inl (Error ''Cannot obliterate queue with active jobs'')
   \<and> obliterateArgs (exampleQueue countdownScript) (obliterateDefaults None) ! 2 = Num 1000
   \<and> obliterateArgs (exampleQueue countdownScript) (obliterateDefaults None) ! 3 = Null
   \<and> obliterateArgs (exampleQueue countdownScript)
         (obliterateDefaults (Some \<lparr>force_opt = Given True, count_opt = Absent\<rparr>)) ! 2
       = Num 1000
   \<and> obliterateArgs (exampleQueue countdownScript)
         (obliterateDefaults (Some \<lparr>force_opt = Given True, count_opt = Absent\<rparr>)) ! 3
       = Str ''force''
   \<and> obliterateArgs (exampleQueue countdownScript)
         (obliterateDefaults (Some \<lparr>force_opt = Absent, count_opt = ExplicitUndefined\<rparr>)) ! 2
       = Undefined"
proof -
  have p: "emit (exampleQueue countdownScript) ''paused''
             (snd (Scripts_pause (exampleQueue countdownScript) True 3)) = 3"
    by (simp add: Scripts_pause_def countdownScript_def exampleQueue_def queueOf_def)
  have r: "obliterateRounds (exampleQueue countdownScript) oopts (Suc (Suc (Suc 0))) 3 = 0"
    for oopts
    by (simp add: countdown_round)
  have a: "Queue_obliterate (exampleQueue countdownScript) None 3 = Some (Inr (), 0)"
    using Queue_obliterate_run [of "exampleQueue countdownScript" "obliterateDefaults None" 3
        None Absent Absent, THEN conjunct2, THEN conjunct2]
      Queue_obliterate_run [of "exampleQueue countdownScript" "obliterateDefaults None" 3
        None Absent Absent, THEN conjunct2, THEN conjunct2, THEN conjunct2, THEN conjunct2,
        THEN conjunct2, THEN conjunct2, THEN conjunct1, THEN spec, of "Suc (Suc 0)"]
    by (simp add: p r countdown_cursor countdown_round cursorContinues_def loopExit_def
        less_Suc_eq)
  have b: "fst (Scripts_obliterate (exampleQueue (replying (IntReply (- 1))))
            \<lparr>force = Some False, count = Some 1000\<rparr> ())
       = Inl (Error ''Cannot obliterate non-paused queue'')"
    using Queue_obliterate_run [of "exampleQueue (replying (IntReply (- 1)))"
        "\<lparr>force = Some False, count = Some 1000\<rparr>" "()" None Absent Absent]
    by (simp add: obliterateCursor_def replying_def)
  have c: "fst (Scripts_obliterate (exampleQueue (replying (IntReply (- 2))))
            \<lparr>force = Some False, count = Some 1000\<rparr> ())
       = Inl (Error ''Cannot obliterate queue with active jobs'')"
    using Queue_obliterate_run [of "exampleQueue (replying (IntReply (- 2)))"
        "\<lparr>force = Some False, count = Some 1000\<rparr>" "()" None Absent Absent]
    by (simp add: obliterateCursor_def replying_def)
  have d: "obliterateArgs (exampleQueue countdownScript) (obliterateDefaults None) ! 2 = Num 1000
     \<and> obliterateArgs (exampleQueue countdownScript) (obliterateDefaults None) ! 3 = Null"
    using Queue_obliterate_run [of "exampleQueue countdownScript" "obliterateDefaults None" 3
        None Absent Absent, THEN conjunct2, THEN conjunct2, THEN conjunct2, THEN conjunct2,
        THEN conjunct1]
    by simp
  have e: "obliterateArgs (exampleQueue countdownScript)
         (obliterateDefaults (Some \<lparr>force_opt = Given True, count_opt = Absent\<rparr>)) ! 2
       = Num 1000
     \<and> obliterateArgs (exampleQueue countdownScript)
         (obliterateDefaults (Some \<lparr>force_opt = Given True, count_opt = Absent\<rparr>)) ! 3
       = Str ''force''"
    using Queue_obliterate_run [of "exampleQueue countdownScript" "obliterateDefaults None" 3
        None "Given True" Absent, THEN conjunct2, THEN conjunct2, THEN conjunct2,
        THEN conjunct2, THEN conjunct2, THEN conjunct1]
    by simp
  have f: "obliterateArgs (exampleQueue countdownScript)
         (obliterateDefaults (Some \<lparr>force_opt = Absent, count_opt = ExplicitUndefined\<rparr>)) ! 2
       = Undefined"
    using Queue_obliterate_run [of "exampleQueue countdownScript" "obliterateDefaults None" 3
        None Absent ExplicitUndefined, THEN conjunct2, THEN conjunct2, THEN conjunct2,
        THEN conjunct2, THEN conjunct2, THEN conjunct1]
    by simp
  from a b c d e f show ?thesis by simp
qed

section \<open>Waiting for children: outcomes\<close>

lemma moveToWaitingChildrenArgs_queueOf:
  "moveToWaitingChildrenArgs (queueOf p q w script) jobId token (Some mo) =
     Inr [Str (keySpace p q (jobId @ '':lock'')), Str (keySpace p q ''active''),
          Str (keySpace p q ''waiting-children''), Str (keySpace p q jobId),
          Str token,
          Str (case getParentKey (child mo) of None \<Rightarrow> [] | Some k \<Rightarrow> k),
          jsonArg (Num (let t = max 0 (case mtc_timestamp mo of
                                         None \<Rightarrow> 0 | Some t \<Rightarrow> flInt t)
                        in if t > 0
                           then flInt (t * 0x1000 + (toInt32 (toNumber jobId) AND 0xfff))
                           else t)),
          Str jobId]"
  by (simp add: moveToWaitingChildrenArgs_def Let_def)

lemma jsonArg_Num:
  "jsonArg (Num n) = Str (if overflows n then ''null'' else numberToString n)"
  by (simp add: jsonArg_def)

text \<open>The three branches of the script, on the eight arguments of the wrapper.\<close>

lemma script_noop:
  assumes "setAt st (jobKey @ '':dependencies'') = {}"
  shows "moveToWaitingChildren_script
           [Str lockKey, Str activeKey, Str wcKey, Str jobKey, Str token, Str childKey, Str ts,
            Str jobId] st = (IntReply 0, st)"
  using assms by (simp add: moveToWaitingChildren_script_def)

lemma script_move:
  assumes "setAt st (jobKey @ '':dependencies'') \<noteq> {}" and "st lockKey = Some (RString token)"
  shows "moveToWaitingChildren_script
           [Str lockKey, Str activeKey, Str wcKey, Str jobKey, Str token, Str childKey, Str ts,
            Str jobId] st
         = (IntReply 1,
            st(activeKey \<mapsto> RList (removeAll jobId (listAt st activeKey)),
               wcKey \<mapsto> RSet (insert jobId (setAt st wcKey))))"
  using assms by (simp add: moveToWaitingChildren_script_def)

lemma script_badlock:
  assumes "setAt st (jobKey @ '':dependencies'') \<noteq> {}" and "st lockKey \<noteq> Some (RString token)"
  shows "moveToWaitingChildren_script
           [Str lockKey, Str activeKey, Str wcKey, Str jobKey, Str token, Str childKey, Str ts,
            Str jobId] st = (IntReply (- 2), st)"
  using assms by (simp add: moveToWaitingChildren_script_def)

text \<open>The wrapper over the script, and the wrapper over any reply.\<close>

lemma moveToWaitingChildren_on_script:
  "moveToWaitingChildren (queueOf p q w (\<lambda>cmd. moveToWaitingChildren_script)) jobId token mopts st
   = (let r = moveToWaitingChildren_script
                [Str (keySpace p q (jobId @ '':lock'')), Str (keySpace p q ''active''),
                 Str (keySpace p q ''waiting-children''), Str (keySpace p q jobId),
                 Str token,
                 Str (case getParentKey (child (givenOrEmpty mopts)) of
                        None \<Rightarrow> [] | Some k \<Rightarrow> k),
                 Str (let n = (let t = max 0 (case mtc_timestamp (givenOrEmpty mopts) of
                                                None \<Rightarrow> 0 | Some t \<Rightarrow> flInt t)
                               in if t > 0
                                  then flInt (t * 0x1000
                                              + (toInt32 (toNumber jobId) AND 0xfff))
                                  else t)
                      in if overflows n then ''null'' else numberToString n),
                 Str jobId] st
      in (Inr (if fst r = IntReply 0 then Boolean True
               else if fst r = IntReply 1 then Boolean False
               else ErrorValue (finishedErrors (fst r) jobId ''moveToWaitingChildren'' ''active'')),
          snd r))"
  by (simp add: moveToWaitingChildren_def moveToWaitingChildrenArgs_queueOf jsonArg_Num Let_def)

lemma wrapper_noop:
  assumes "setAt st (keySpace p q jobId @ '':dependencies'') = {}"
  shows "moveToWaitingChildren (queueOf p q w (\<lambda>cmd. moveToWaitingChildren_script))
           jobId token mopts st = (Inr (Boolean True), st)"
  by (simp add: moveToWaitingChildren_on_script script_noop [OF assms])

lemma wrapper_move:
  assumes "setAt st (keySpace p q jobId @ '':dependencies'') \<noteq> {}"
    and "st (keySpace p q (jobId @ '':lock'')) = Some (RString token)"
  shows "moveToWaitingChildren (queueOf p q w (\<lambda>cmd. moveToWaitingChildren_script))
           jobId token mopts st
         = (Inr (Boolean False),
            st(keySpace p q ''active'' \<mapsto>
                 RList (removeAll jobId (listAt st (keySpace p q ''active''))),
               keySpace p q ''waiting-children'' \<mapsto>
                 RSet (insert jobId (setAt st (keySpace p q ''waiting-children'')))))"
  by (simp add: moveToWaitingChildren_on_script script_move [OF assms])

lemma wrapper_badlock:
  assumes "setAt st (keySpace p q jobId @ '':dependencies'') \<noteq> {}"
    and "st (keySpace p q (jobId @ '':lock'')) \<noteq> Some (RString token)"
  shows "moveToWaitingChildren (queueOf p q w (\<lambda>cmd. moveToWaitingChildren_script))
           jobId token mopts st
         = (Inr (ErrorValue (Error (''Missing lock for job '' @ jobId
                                     @ ''. moveToWaitingChildren''))), st)"
  by (simp add: moveToWaitingChildren_on_script script_badlock [OF assms] finishedErrors_def)

lemma moved_containers:
  "listAt (st(keySpace p q ''active'' \<mapsto> RList xs, keySpace p q ''waiting-children'' \<mapsto> RSet ys))
          (keySpace p q ''active'') = xs"
  "setAt (st(keySpace p q ''active'' \<mapsto> RList xs, keySpace p q ''waiting-children'' \<mapsto> RSet ys))
          (keySpace p q ''waiting-children'') = ys"
  by (simp_all add: listAt_def setAt_def)

lemma wrapper_codes:
  assumes "moveToWaitingChildrenArgs queue jobId token (Some (givenOrEmpty mopts)) = Inr args"
    and "fst (client queue ''moveToWaitingChildren'' args s) = r"
  shows "fst (moveToWaitingChildren queue jobId token mopts s)
         = Inr (if r = IntReply 0 then Boolean True
                else if r = IntReply 1 then Boolean False
                else ErrorValue (finishedErrors r jobId ''moveToWaitingChildren'' ''active''))"
  using assms
  by (simp add: moveToWaitingChildren_def Let_def)

text \<open>
  C3, as the code has it, on the script modelled from the specification. If the
  dependencies set of the job is empty, the script replies 0, the store is unchanged and the
  wrapper returns \<^verbatim>\<open>true\<close>. If the set is not empty and the lock holds the token, the script
  replies 1, the job id is removed from \<^verbatim>\<open>active\<close> and added to \<^verbatim>\<open>waiting-children\<close>, and the
  wrapper returns \<^verbatim>\<open>false\<close>; with another lock value the script replies -2 and the wrapper
  returns the ``Missing lock'' error. On any script, the wrapper returns (and does not throw)
  the \<^verbatim>\<open>Error\<close> of the code for the replies -1, -2, -3 and -4, and returns \<^verbatim>\<open>undefined\<close> for
  every other reply than 0 and 1.
\<close>

theorem moveToWaitingChildren_outcomes:
  "(setAt st (keySpace p q jobId @ '':dependencies'') = {} \<longrightarrow>
      moveToWaitingChildren (queueOf p q w (\<lambda>cmd. moveToWaitingChildren_script))
        jobId token mopts st = (Inr (Boolean True), st))
   \<and> (setAt st (keySpace p q jobId @ '':dependencies'') \<noteq> {}
        \<and> st (keySpace p q (jobId @ '':lock'')) = Some (RString token) \<longrightarrow>
      fst (moveToWaitingChildren (queueOf p q w (\<lambda>cmd. moveToWaitingChildren_script))
             jobId token mopts st) = Inr (Boolean False)
      \<and> listAt (snd (moveToWaitingChildren (queueOf p q w (\<lambda>cmd. moveToWaitingChildren_script))
                       jobId token mopts st)) (keySpace p q ''active'')
          = removeAll jobId (listAt st (keySpace p q ''active''))
      \<and> setAt (snd (moveToWaitingChildren (queueOf p q w (\<lambda>cmd. moveToWaitingChildren_script))
                      jobId token mopts st)) (keySpace p q ''waiting-children'')
          = insert jobId (setAt st (keySpace p q ''waiting-children'')))
   \<and> (setAt st (keySpace p q jobId @ '':dependencies'') \<noteq> {}
        \<and> st (keySpace p q (jobId @ '':lock'')) \<noteq> Some (RString token) \<longrightarrow>
      moveToWaitingChildren (queueOf p q w (\<lambda>cmd. moveToWaitingChildren_script))
        jobId token mopts st
        = (Inr (ErrorValue (Error (''Missing lock for job '' @ jobId
                                    @ ''. moveToWaitingChildren''))), st))
   \<and> (\<forall>args code.
        moveToWaitingChildrenArgs queue jobId token (Some (givenOrEmpty mopts)) = Inr args
        \<and> fst (client queue ''moveToWaitingChildren'' args s) = IntReply code \<longrightarrow>
        fst (moveToWaitingChildren queue jobId token mopts s) =
          Inr (if code = 0 then Boolean True
               else if code = 1 then Boolean False
               else if code = - 1 then
                 ErrorValue (Error (''Missing key for job '' @ jobId
                                     @ ''. moveToWaitingChildren''))
               else if code = - 2 then
                 ErrorValue (Error (''Missing lock for job '' @ jobId
                                     @ ''. moveToWaitingChildren''))
               else if code = - 3 then
                 ErrorValue (Error (''Job '' @ jobId
                                     @ '' is not in the active state. moveToWaitingChildren''))
               else if code = - 4 then
                 ErrorValue (Error (''Job '' @ jobId
                                     @ '' has pending dependencies. moveToWaitingChildren''))
               else ErrorValue UndefinedValue))"
proof (intro conjI allI impI)
  assume "setAt st (keySpace p q jobId @ '':dependencies'') = {}"
  then show "moveToWaitingChildren (queueOf p q w (\<lambda>cmd. moveToWaitingChildren_script))
        jobId token mopts st = (Inr (Boolean True), st)"
    by (rule wrapper_noop)
next
  assume a: "setAt st (keySpace p q jobId @ '':dependencies'') \<noteq> {}
        \<and> st (keySpace p q (jobId @ '':lock'')) = Some (RString token)"
  note m = wrapper_move [OF conjunct1 [OF a] conjunct2 [OF a], of w mopts]
  show "fst (moveToWaitingChildren (queueOf p q w (\<lambda>cmd. moveToWaitingChildren_script))
             jobId token mopts st) = Inr (Boolean False)"
    by (simp only: m fst_conv)
  show "listAt (snd (moveToWaitingChildren (queueOf p q w (\<lambda>cmd. moveToWaitingChildren_script))
                       jobId token mopts st)) (keySpace p q ''active'')
          = removeAll jobId (listAt st (keySpace p q ''active''))"
    by (simp only: m snd_conv moved_containers)
  show "setAt (snd (moveToWaitingChildren (queueOf p q w (\<lambda>cmd. moveToWaitingChildren_script))
                      jobId token mopts st)) (keySpace p q ''waiting-children'')
          = insert jobId (setAt st (keySpace p q ''waiting-children''))"
    by (simp only: m snd_conv moved_containers)
next
  assume a: "setAt st (keySpace p q jobId @ '':dependencies'') \<noteq> {}
        \<and> st (keySpace p q (jobId @ '':lock'')) \<noteq> Some (RString token)"
  show "moveToWaitingChildren (queueOf p q w (\<lambda>cmd. moveToWaitingChildren_script))
        jobId token mopts st
        = (Inr (ErrorValue (Error (''Missing lock for job '' @ jobId
                                    @ ''. moveToWaitingChildren''))), st)"
    by (rule wrapper_badlock [OF conjunct1 [OF a] conjunct2 [OF a]])
next
  fix args code
  assume a: "moveToWaitingChildrenArgs queue jobId token (Some (givenOrEmpty mopts)) = Inr args
        \<and> fst (client queue ''moveToWaitingChildren'' args s) = IntReply code"
  show "fst (moveToWaitingChildren queue jobId token mopts s) =
          Inr (if code = 0 then Boolean True
               else if code = 1 then Boolean False
               else if code = - 1 then
                 ErrorValue (Error (''Missing key for job '' @ jobId
                                     @ ''. moveToWaitingChildren''))
               else if code = - 2 then
                 ErrorValue (Error (''Missing lock for job '' @ jobId
                                     @ ''. moveToWaitingChildren''))
               else if code = - 3 then
                 ErrorValue (Error (''Job '' @ jobId
                                     @ '' is not in the active state. moveToWaitingChildren''))
               else if code = - 4 then
                 ErrorValue (Error (''Job '' @ jobId
                                     @ '' has pending dependencies. moveToWaitingChildren''))
               else ErrorValue UndefinedValue)"
    by (simp add: wrapper_codes [OF conjunct1 [OF a] conjunct2 [OF a]] finishedErrors_def)
qed

text \<open>
  On the example store: job 8 has no dependencies, job 7 has one and is locked under
  \<^verbatim>\<open>tok\<close>; then job 7 with another token; then a script that replies -3.
\<close>

lemma exampleStore_lookups:
  "setAt exampleStore (keySpace ''bull'' ''q'' ''8'' @ '':dependencies'') = {}"
  "setAt exampleStore (keySpace ''bull'' ''q'' ''7'' @ '':dependencies'') = {''bull:q:9''}"
  "exampleStore (keySpace ''bull'' ''q'' (''7'' @ '':lock'')) = Some (RString ''tok'')"
  "listAt exampleStore (keySpace ''bull'' ''q'' ''active'') = [''7'', ''8'']"
  "setAt exampleStore (keySpace ''bull'' ''q'' ''waiting-children'') = {}"
  "exampleStore (keySpace ''bull'' ''q'' ''7:lock'') = Some (RString ''tok'')"
  "listAt exampleStore ''bull:q:active'' = [''7'', ''8'']"
  "setAt exampleStore ''bull:q:waiting-children'' = {}"
  by (simp_all add: exampleStore_def keySpace_def setAt_def listAt_def)

theorem moveToWaitingChildren_outcomes_witness:
  "moveToWaitingChildren (exampleQueue (\<lambda>cmd. moveToWaitingChildren_script)) ''8'' ''tok'' None
      exampleStore = (Inr (Boolean True), exampleStore)
   \<and> fst (moveToWaitingChildren (exampleQueue (\<lambda>cmd. moveToWaitingChildren_script)) ''7''
            ''tok'' None exampleStore) = Inr (Boolean False)
   \<and> listAt (snd (moveToWaitingChildren (exampleQueue (\<lambda>cmd. moveToWaitingChildren_script))
                    ''7'' ''tok'' None exampleStore)) ''bull:q:active'' = [''8'']
   \<and> setAt (snd (moveToWaitingChildren (exampleQueue (\<lambda>cmd. moveToWaitingChildren_script))
                   ''7'' ''tok'' None exampleStore)) ''bull:q:waiting-children'' = {''7''}
   \<and> moveToWaitingChildren (exampleQueue (\<lambda>cmd. moveToWaitingChildren_script)) ''7'' ''other''
       None exampleStore
       = (Inr (ErrorValue (Error ''Missing lock for job 7. moveToWaitingChildren'')),
          exampleStore)
   \<and> fst (moveToWaitingChildren (exampleQueue (replying (IntReply (- 3)))) ''7'' ''tok'' None ())
       = Inr (ErrorValue (Error ''Job 7 is not in the active state. moveToWaitingChildren''))"
proof -
  have k: "keySpace ''bull'' ''q'' ''active'' = ''bull:q:active''"
    "keySpace ''bull'' ''q'' ''waiting-children'' = ''bull:q:waiting-children''"
    by (simp_all add: keySpace_def)
  have a: "moveToWaitingChildren (exampleQueue (\<lambda>cmd. moveToWaitingChildren_script)) ''8''
      ''tok'' None exampleStore = (Inr (Boolean True), exampleStore)"
    using moveToWaitingChildren_outcomes [of exampleStore "''bull''" "''q''" "''8''"
        "\<lparr>lockDuration = Some 30000, limiter = None\<rparr>" "''tok''" None, THEN conjunct1]
    by (simp add: exampleStore_lookups exampleQueue_def)
  note w7 = moveToWaitingChildren_outcomes [of exampleStore "''bull''" "''q''" "''7''"
        "\<lparr>lockDuration = Some 30000, limiter = None\<rparr>" "''tok''" None,
        THEN conjunct2, THEN conjunct1]
  have b: "fst (moveToWaitingChildren (exampleQueue (\<lambda>cmd. moveToWaitingChildren_script)) ''7''
            ''tok'' None exampleStore) = Inr (Boolean False)
     \<and> listAt (snd (moveToWaitingChildren (exampleQueue (\<lambda>cmd. moveToWaitingChildren_script))
                    ''7'' ''tok'' None exampleStore)) ''bull:q:active'' = [''8'']
     \<and> setAt (snd (moveToWaitingChildren (exampleQueue (\<lambda>cmd. moveToWaitingChildren_script))
                   ''7'' ''tok'' None exampleStore)) ''bull:q:waiting-children'' = {''7''}"
    using w7 by (simp add: exampleStore_lookups exampleQueue_def k)
  have c: "moveToWaitingChildren (exampleQueue (\<lambda>cmd. moveToWaitingChildren_script)) ''7''
       ''other'' None exampleStore
       = (Inr (ErrorValue (Error ''Missing lock for job 7. moveToWaitingChildren'')),
          exampleStore)"
    using moveToWaitingChildren_outcomes [of exampleStore "''bull''" "''q''" "''7''"
        "\<lparr>lockDuration = Some 30000, limiter = None\<rparr>" "''other''" None,
        THEN conjunct2, THEN conjunct2, THEN conjunct1]
    by (simp add: exampleStore_lookups exampleQueue_def)
  have d: "fst (moveToWaitingChildren (exampleQueue (replying (IntReply (- 3)))) ''7'' ''tok''
             None ())
       = Inr (ErrorValue (Error ''Job 7 is not in the active state. moveToWaitingChildren''))"
    using moveToWaitingChildren_outcomes [of _ _ _ "''7''" _ "''tok''" None
        "exampleQueue (replying (IntReply (- 3)))" "()",
        THEN conjunct2, THEN conjunct2, THEN conjunct2, THEN spec, THEN spec, of _ "- 3"]
    by (simp add: moveToWaitingChildrenArgs_def replying_def Let_def)
  from a b c d show ?thesis by simp
qed

text \<open>
  A script that replies -5, a negative code: the wrapper yields \<^verbatim>\<open>undefined\<close>, not an error.
\<close>

theorem moveToWaitingChildren_reply_minus_five:
  "fst (moveToWaitingChildren (exampleQueue (replying (IntReply (- 5)))) ''7'' ''tok'' None ())
     = Inr (ErrorValue UndefinedValue)"
  by (simp add: moveToWaitingChildren_def moveToWaitingChildrenArgs_def givenOrEmpty_def
      replying_def finishedErrors_def Let_def)

section \<open>Reprocessing a job: outcomes\<close>

lemma reprocessJob_call:
  assumes "job_opts job = Some jo"
  shows "reprocessJob queue job state s =
     (Inr (fst (client queue ''reprocessJob''
                  [Str (toKey queue (job_id job)), keyOf queue ''events'',
                   Str (toKey queue state), Str (toKey queue ''wait''),
                   Str (job_id job),
                   Str (if lifo jo = Some True then ''RPUSH'' else ''LPUSH'')] s)),
      snd (client queue ''reprocessJob''
             [Str (toKey queue (job_id job)), keyOf queue ''events'',
              Str (toKey queue state), Str (toKey queue ''wait''),
              Str (job_id job),
              Str (if lifo jo = Some True then ''RPUSH'' else ''LPUSH'')] s))"
  using assms by (simp add: reprocessJob_def Let_def)

lemma reprocess_script_missing:
  assumes "st jobKey = None"
  shows "reprocessJob_script pausedKey metaKey
           [Str jobKey, Str eventsKey, Str stateKey, Str waitKey, Str jobId, Str pushCmd] st
         = (IntReply 0, st)"
  using assms by (simp add: reprocessJob_script_def)

lemma reprocess_script_locked:
  assumes "st jobKey \<noteq> None" and "st (jobKey @ '':lock'') \<noteq> None"
  shows "reprocessJob_script pausedKey metaKey
           [Str jobKey, Str eventsKey, Str stateKey, Str waitKey, Str jobId, Str pushCmd] st
         = (IntReply (- 1), st)"
  using assms by (simp add: reprocessJob_script_def)

lemma reprocess_script_absent:
  assumes "st jobKey \<noteq> None" and "st (jobKey @ '':lock'') = None"
    and "map_of (zsetAt st stateKey) jobId = None"
  shows "reprocessJob_script pausedKey metaKey
           [Str jobKey, Str eventsKey, Str stateKey, Str waitKey, Str jobId, Str pushCmd] st
         = (IntReply (- 2), st)"
  using assms by (simp add: reprocessJob_script_def)

lemma reprocess_script_moved:
  assumes "st jobKey \<noteq> None" and "st (jobKey @ '':lock'') = None"
    and "map_of (zsetAt st stateKey) jobId \<noteq> None"
  shows "reprocessJob_script pausedKey metaKey
           [Str jobKey, Str eventsKey, Str stateKey, Str waitKey, Str jobId, Str pushCmd] st
         = (IntReply 1,
            st(stateKey \<mapsto> RZSet (filter (\<lambda>e. fst e \<noteq> jobId) (zsetAt st stateKey)),
               (if isPaused st metaKey then pausedKey else waitKey) \<mapsto>
                 RList (pushOnto pushCmd jobId
                          (listAt st (if isPaused st metaKey then pausedKey else waitKey)))))"
  using assms by (simp add: reprocessJob_script_def Let_def)

lemma map_of_filter_out: "map_of (filter (\<lambda>e. fst e \<noteq> k) xs) k = None"
  by (induction xs) auto

lemma moved_lookup:
  assumes "stateKey \<noteq> target"
  shows "zsetAt (st(stateKey \<mapsto> RZSet zs, target \<mapsto> RList xs)) stateKey = zs"
    and "listAt (st(stateKey \<mapsto> RZSet zs, target \<mapsto> RList xs)) target = xs"
  using assms by (simp_all add: zsetAt_def listAt_def)

text \<open>
  C6, on the script modelled from the specification. For a job with options and the
  expected set \<^verbatim>\<open>completed\<close> or \<^verbatim>\<open>failed\<close>: \<^verbatim>\<open>reprocessJob\<close> returns 0 when the job hash does
  not exist, -1 when the job is locked, and -2 when the job is not in the expected set;
  otherwise it returns 1, the job has left the expected set, and its id has been pushed onto
  \<^verbatim>\<open>wait\<close> (onto \<^verbatim>\<open>paused\<close> when the queue is paused), at the tail (\<^verbatim>\<open>RPUSH\<close>) when the job's
  \<^verbatim>\<open>lifo\<close> option is set and at the head (\<^verbatim>\<open>LPUSH\<close>) otherwise. On any queue the wrapper
  passes that push command as the last argument and returns the script's reply as it is.
\<close>

theorem reprocessJob_outcomes:
  assumes "job_opts job = Some jo" and "state = ''completed'' \<or> state = ''failed''"
  shows "(st (keySpace p q (job_id job)) = None \<longrightarrow>
      reprocessJob (queueOf p q w (\<lambda>cmd. reprocessJob_script (keySpace p q ''paused'')
                                              (keySpace p q ''meta'')))
        job state st = (Inr (IntReply 0), st))
   \<and> (st (keySpace p q (job_id job)) \<noteq> None
        \<and> st (keySpace p q (job_id job) @ '':lock'') \<noteq> None \<longrightarrow>
      reprocessJob (queueOf p q w (\<lambda>cmd. reprocessJob_script (keySpace p q ''paused'')
                                              (keySpace p q ''meta'')))
        job state st = (Inr (IntReply (- 1)), st))
   \<and> (st (keySpace p q (job_id job)) \<noteq> None
        \<and> st (keySpace p q (job_id job) @ '':lock'') = None
        \<and> map_of (zsetAt st (keySpace p q state)) (job_id job) = None \<longrightarrow>
      reprocessJob (queueOf p q w (\<lambda>cmd. reprocessJob_script (keySpace p q ''paused'')
                                              (keySpace p q ''meta'')))
        job state st = (Inr (IntReply (- 2)), st))
   \<and> (st (keySpace p q (job_id job)) \<noteq> None
        \<and> st (keySpace p q (job_id job) @ '':lock'') = None
        \<and> map_of (zsetAt st (keySpace p q state)) (job_id job) \<noteq> None \<longrightarrow>
      fst (reprocessJob (queueOf p q w (\<lambda>cmd. reprocessJob_script (keySpace p q ''paused'')
                                                   (keySpace p q ''meta'')))
             job state st) = Inr (IntReply 1)
      \<and> map_of (zsetAt (snd (reprocessJob
                   (queueOf p q w (\<lambda>cmd. reprocessJob_script (keySpace p q ''paused'')
                                              (keySpace p q ''meta'')))
                   job state st)) (keySpace p q state)) (job_id job) = None
      \<and> listAt (snd (reprocessJob
                   (queueOf p q w (\<lambda>cmd. reprocessJob_script (keySpace p q ''paused'')
                                              (keySpace p q ''meta'')))
                   job state st))
               (keySpace p q (if isPaused st (keySpace p q ''meta'') then ''paused'' else ''wait''))
          = (if lifo jo = Some True
             then listAt st (keySpace p q (if isPaused st (keySpace p q ''meta'')
                                           then ''paused'' else ''wait'')) @ [job_id job]
             else job_id job # listAt st (keySpace p q (if isPaused st (keySpace p q ''meta'')
                                                        then ''paused'' else ''wait''))))
   \<and> (\<forall>queue s. reprocessJob queue job state s =
         (Inr (fst (client queue ''reprocessJob''
                      [Str (toKey queue (job_id job)), keyOf queue ''events'',
                       Str (toKey queue state), Str (toKey queue ''wait''),
                       Str (job_id job),
                       Str (if lifo jo = Some True then ''RPUSH'' else ''LPUSH'')] s)),
          snd (client queue ''reprocessJob''
                 [Str (toKey queue (job_id job)), keyOf queue ''events'',
                  Str (toKey queue state), Str (toKey queue ''wait''),
                  Str (job_id job),
                  Str (if lifo jo = Some True then ''RPUSH'' else ''LPUSH'')] s)))"
proof -
  let ?Q = "queueOf p q w (\<lambda>cmd. reprocessJob_script (keySpace p q ''paused'')
                                              (keySpace p q ''meta''))"
  let ?args = "[Str (keySpace p q (job_id job)), Str (keySpace p q ''events''),
                Str (keySpace p q state), Str (keySpace p q ''wait''),
                Str (job_id job),
                Str (if lifo jo = Some True then ''RPUSH'' else ''LPUSH'')]"
  have call: "reprocessJob ?Q job state st =
      (Inr (fst (reprocessJob_script (keySpace p q ''paused'') (keySpace p q ''meta'') ?args st)),
       snd (reprocessJob_script (keySpace p q ''paused'') (keySpace p q ''meta'') ?args st))"
    by (simp add: reprocessJob_call [OF assms(1)])
  have ne: "keySpace p q state \<noteq> keySpace p q ''paused''"
    "keySpace p q state \<noteq> keySpace p q ''wait''"
    using assms(2) by auto
  have c0: "st (keySpace p q (job_id job)) = None \<longrightarrow>
      reprocessJob ?Q job state st = (Inr (IntReply 0), st)"
    by (simp add: call reprocess_script_missing)
  have c1: "st (keySpace p q (job_id job)) \<noteq> None
        \<and> st (keySpace p q (job_id job) @ '':lock'') \<noteq> None \<longrightarrow>
      reprocessJob ?Q job state st = (Inr (IntReply (- 1)), st)"
    by (simp add: call reprocess_script_locked)
  have c2: "st (keySpace p q (job_id job)) \<noteq> None
        \<and> st (keySpace p q (job_id job) @ '':lock'') = None
        \<and> map_of (zsetAt st (keySpace p q state)) (job_id job) = None \<longrightarrow>
      reprocessJob ?Q job state st = (Inr (IntReply (- 2)), st)"
    by (simp add: call reprocess_script_absent)
  have c3: "st (keySpace p q (job_id job)) \<noteq> None
        \<and> st (keySpace p q (job_id job) @ '':lock'') = None
        \<and> map_of (zsetAt st (keySpace p q state)) (job_id job) \<noteq> None \<longrightarrow>
      fst (reprocessJob ?Q job state st) = Inr (IntReply 1)
      \<and> map_of (zsetAt (snd (reprocessJob ?Q job state st)) (keySpace p q state)) (job_id job)
          = None
      \<and> listAt (snd (reprocessJob ?Q job state st))
               (keySpace p q (if isPaused st (keySpace p q ''meta'') then ''paused'' else ''wait''))
          = (if lifo jo = Some True
             then listAt st (keySpace p q (if isPaused st (keySpace p q ''meta'')
                                           then ''paused'' else ''wait'')) @ [job_id job]
             else job_id job # listAt st (keySpace p q (if isPaused st (keySpace p q ''meta'')
                                                        then ''paused'' else ''wait'')))"
  proof
    assume a: "st (keySpace p q (job_id job)) \<noteq> None
        \<and> st (keySpace p q (job_id job) @ '':lock'') = None
        \<and> map_of (zsetAt st (keySpace p q state)) (job_id job) \<noteq> None"
    note m = reprocess_script_moved [OF conjunct1 [OF a] conjunct1 [OF conjunct2 [OF a]]
        conjunct2 [OF conjunct2 [OF a]]]
    show "fst (reprocessJob ?Q job state st) = Inr (IntReply 1)
      \<and> map_of (zsetAt (snd (reprocessJob ?Q job state st)) (keySpace p q state)) (job_id job)
          = None
      \<and> listAt (snd (reprocessJob ?Q job state st))
               (keySpace p q (if isPaused st (keySpace p q ''meta'') then ''paused'' else ''wait''))
          = (if lifo jo = Some True
             then listAt st (keySpace p q (if isPaused st (keySpace p q ''meta'')
                                           then ''paused'' else ''wait'')) @ [job_id job]
             else job_id job # listAt st (keySpace p q (if isPaused st (keySpace p q ''meta'')
                                                        then ''paused'' else ''wait'')))"
    proof (cases "isPaused st (keySpace p q ''meta'')")
      case True
      with ne show ?thesis
        by (simp add: call m moved_lookup map_of_filter_out pushOnto_def)
    next
      case False
      with ne show ?thesis
        by (simp add: call m moved_lookup map_of_filter_out pushOnto_def)
    qed
  qed
  have c4: "\<forall>queue s. reprocessJob queue job state s =
         (Inr (fst (client queue ''reprocessJob''
                      [Str (toKey queue (job_id job)), keyOf queue ''events'',
                       Str (toKey queue state), Str (toKey queue ''wait''),
                       Str (job_id job),
                       Str (if lifo jo = Some True then ''RPUSH'' else ''LPUSH'')] s)),
          snd (client queue ''reprocessJob''
                 [Str (toKey queue (job_id job)), keyOf queue ''events'',
                  Str (toKey queue state), Str (toKey queue ''wait''),
                  Str (job_id job),
                  Str (if lifo jo = Some True then ''RPUSH'' else ''LPUSH'')] s))"
    by (intro allI) (rule reprocessJob_call [OF assms(1)])
  show ?thesis
    by (rule conjI [OF c0 conjI [OF c1 conjI [OF c2 conjI [OF c3 c4]]]])
qed

text \<open>
  On the example store, with the expected set \<^verbatim>\<open>failed\<close>: job 6 does not exist, job 7 is
  locked, job 3 is waiting and not failed, job 5 has failed and goes in front of job 3, or
  behind it when it is a LIFO job.
\<close>

lemma jobWith_simps [simp]:
  "job_id (jobWith jid l) = jid"
  "job_opts (jobWith jid l) =
     Some \<lparr>delay = None, priority = None, lifo = l, jobId_opt = None, parent = None\<rparr>"
  by (simp_all add: jobWith_def)

lemma exampleStore_jobs:
  "exampleStore (keySpace ''bull'' ''q'' ''6'') = None"
  "exampleStore (keySpace ''bull'' ''q'' ''7'') \<noteq> None"
  "exampleStore (keySpace ''bull'' ''q'' ''7'' @ '':lock'') \<noteq> None"
  "exampleStore (keySpace ''bull'' ''q'' ''3'') \<noteq> None"
  "exampleStore (keySpace ''bull'' ''q'' ''3'' @ '':lock'') = None"
  "exampleStore (keySpace ''bull'' ''q'' ''5'') \<noteq> None"
  "exampleStore (keySpace ''bull'' ''q'' ''5'' @ '':lock'') = None"
  "map_of (zsetAt exampleStore (keySpace ''bull'' ''q'' ''failed'')) ''3'' = None"
  "map_of (zsetAt exampleStore (keySpace ''bull'' ''q'' ''failed'')) ''5'' \<noteq> None"
  "isPaused exampleStore (keySpace ''bull'' ''q'' ''meta'') = False"
  "listAt exampleStore (keySpace ''bull'' ''q'' ''wait'') = [''3'']"
  by (simp_all add: exampleStore_def keySpace_def zsetAt_def listAt_def isPaused_def)

theorem reprocessJob_outcomes_witness:
  "reprocessJob reprocessQueue (jobWith ''6'' None) ''failed'' exampleStore
     = (Inr (IntReply 0), exampleStore)
   \<and> reprocessJob reprocessQueue (jobWith ''7'' None) ''failed'' exampleStore
     = (Inr (IntReply (- 1)), exampleStore)
   \<and> reprocessJob reprocessQueue (jobWith ''3'' None) ''failed'' exampleStore
     = (Inr (IntReply (- 2)), exampleStore)
   \<and> fst (reprocessJob reprocessQueue (jobWith ''5'' None) ''failed'' exampleStore)
     = Inr (IntReply 1)
   \<and> listAt (snd (reprocessJob reprocessQueue (jobWith ''5'' None) ''failed'' exampleStore))
        (keySpace ''bull'' ''q'' ''wait'') = [''5'', ''3'']
   \<and> map_of (zsetAt (snd (reprocessJob reprocessQueue (jobWith ''5'' None) ''failed''
                             exampleStore)) (keySpace ''bull'' ''q'' ''failed'')) ''5'' = None
   \<and> listAt (snd (reprocessJob reprocessQueue (jobWith ''5'' (Some True)) ''failed''
                    exampleStore))
        (keySpace ''bull'' ''q'' ''wait'') = [''3'', ''5'']"
proof -
  note w = reprocessJob_outcomes [of _ _ "''failed''" exampleStore "''bull''" "''q''"
      "\<lparr>lockDuration = Some 30000, limiter = None\<rparr>", OF jobWith_simps(2)]
  have a: "reprocessJob reprocessQueue (jobWith ''6'' None) ''failed'' exampleStore
     = (Inr (IntReply 0), exampleStore)"
    using w [of "''6''" None, THEN conjunct1]
    by (simp add: exampleStore_jobs reprocessQueue_def exampleQueue_def)
  have b: "reprocessJob reprocessQueue (jobWith ''7'' None) ''failed'' exampleStore
     = (Inr (IntReply (- 1)), exampleStore)"
    using w [of "''7''" None, THEN conjunct2, THEN conjunct1]
    by (simp add: exampleStore_jobs reprocessQueue_def exampleQueue_def)
  have c: "reprocessJob reprocessQueue (jobWith ''3'' None) ''failed'' exampleStore
     = (Inr (IntReply (- 2)), exampleStore)"
    using w [of "''3''" None, THEN conjunct2, THEN conjunct2, THEN conjunct1]
    by (simp add: exampleStore_jobs reprocessQueue_def exampleQueue_def)
  have d: "fst (reprocessJob reprocessQueue (jobWith ''5'' None) ''failed'' exampleStore)
     = Inr (IntReply 1)
   \<and> listAt (snd (reprocessJob reprocessQueue (jobWith ''5'' None) ''failed'' exampleStore))
        (keySpace ''bull'' ''q'' ''wait'') = [''5'', ''3'']
   \<and> map_of (zsetAt (snd (reprocessJob reprocessQueue (jobWith ''5'' None) ''failed''
                             exampleStore)) (keySpace ''bull'' ''q'' ''failed'')) ''5'' = None"
    using w [of "''5''" None, THEN conjunct2, THEN conjunct2, THEN conjunct2, THEN conjunct1]
    by (simp add: exampleStore_jobs reprocessQueue_def exampleQueue_def)
  have e: "listAt (snd (reprocessJob reprocessQueue (jobWith ''5'' (Some True)) ''failed''
                    exampleStore))
        (keySpace ''bull'' ''q'' ''wait'') = [''3'', ''5'']"
    using w [of "''5''" "Some True", THEN conjunct2, THEN conjunct2, THEN conjunct2,
        THEN conjunct1]
    by (simp add: exampleStore_jobs reprocessQueue_def exampleQueue_def)
  from a b c d e show ?thesis by simp
qed

end
